theory Spec2Isabelle
  imports Main
begin

section \<open>JavaScript values read by the clients\<close>

text \<open>
  The code-interpreter client treats the transport's answer as \<^verbatim>\<open>any\<close> and inspects its
  shape at run time. Such an answer is modelled as a JavaScript value built from the JSON
  constructors and \<^verbatim>\<open>undefined\<close>. An object is the list of its own properties, with distinct
  keys, in the order in which JavaScript enumerates them; its prototype is
  \<^verbatim>\<open>Object.prototype\<close>, and no value is callable. Strings are sequences of 8-bit code units.
  Numbers are the safe integers, of magnitude at most \<open>2^53 - 1\<close>, which JavaScript holds
  exactly and prints in decimal.
\<close>

typedef safe_integer = "{i :: int. - 9007199254740991 \<le> i \<and> i \<le> 9007199254740991}"
  by (rule exI [of _ 0]) simp

text \<open>The Number with the integer value \<open>i\<close>, for a safe integer \<open>i\<close>.\<close>

definition number :: "int \<Rightarrow> safe_integer" where
  "number i =
     Abs_safe_integer (if - 9007199254740991 \<le> i \<and> i \<le> 9007199254740991 then i else 0)"

datatype jsval =
    JUndefined
  | JNull
  | JBool bool
  | JNum safe_integer
  | JStr string
  | JArr "jsval list"
  | JObj "(string \<times> jsval) list"

text \<open>
  What the code can throw or catch: an instance of \<^verbatim>\<open>Error\<close> (with its class and its
  message) or any other thrown value.
\<close>

datatype error_class = GenericError | TypeError | TimeoutError

datatype thrown = Err error_class string | NonError jsval

definition then_do :: "thrown + 'a \<Rightarrow> ('a \<Rightarrow> thrown + 'b) \<Rightarrow> thrown + 'b" where
  "then_do r f = (case r of Inl e \<Rightarrow> Inl e | Inr v \<Rightarrow> f v)"

definition nullish :: "jsval \<Rightarrow> bool" where
  "nullish v = (v = JUndefined \<or> v = JNull)"

text \<open>\<^verbatim>\<open>Boolean(v)\<close>: the falsy values are undefined, null, false, 0 and the empty string.\<close>

fun truthy :: "jsval \<Rightarrow> bool" where
  "truthy JUndefined = False"
| "truthy JNull = False"
| "truthy (JBool b) = b"
| "truthy (JNum n) = (Rep_safe_integer n \<noteq> 0)"
| "truthy (JStr s) = (s \<noteq> [])"
| "truthy (JArr xs) = True"
| "truthy (JObj kvs) = True"

text \<open>
  \<open>field v k\<close> is the property \<open>k\<close> of a value that is neither null nor undefined. Only the
  names \<^verbatim>\<open>stream result content error message type text resource name description
  mimeType uri\<close> are read by the code; primitives and arrays have none of them.
\<close>

definition field :: "jsval \<Rightarrow> string \<Rightarrow> jsval" where
  "field v k =
     (case v of
        JObj kvs \<Rightarrow> (case map_of kvs k of Some x \<Rightarrow> x | None \<Rightarrow> JUndefined)
      | _ \<Rightarrow> JUndefined)"

text \<open>\<^verbatim>\<open>v.k\<close>: reading a property of null or undefined throws a TypeError.\<close>

definition get :: "jsval \<Rightarrow> string \<Rightarrow> thrown + jsval" where
  "get v k =
     (if v = JUndefined then
        Inl (Err TypeError (''Cannot read properties of undefined (reading '' @ [CHR 0x27] @ k @ [CHR 0x27] @ '')''))
      else if v = JNull then
        Inl (Err TypeError (''Cannot read properties of null (reading '' @ [CHR 0x27] @ k @ [CHR 0x27] @ '')''))
      else Inr (field v k))"

text \<open>\<^verbatim>\<open>v?.k\<close>: undefined when \<open>v\<close> is null or undefined.\<close>

definition optget :: "jsval \<Rightarrow> string \<Rightarrow> jsval" where
  "optget v k = (if nullish v then JUndefined else field v k)"

text \<open>
  \<^verbatim>\<open>for await (const x of v)\<close>: an array yields its elements, a string its characters,
  anything else is not iterable.
\<close>

definition iterate :: "jsval \<Rightarrow> thrown + jsval list" where
  "iterate v =
     (case v of
        JArr xs \<Rightarrow> Inr xs
      | JStr s \<Rightarrow> Inr (map (\<lambda>c. JStr [c]) s)
      | _ \<Rightarrow> Inl (Err TypeError ''response.stream is not async iterable''))"

subsection \<open>Conversion to strings\<close>

fun intercalate :: "string \<Rightarrow> string list \<Rightarrow> string" where
  "intercalate sep [] = []"
| "intercalate sep [s] = s"
| "intercalate sep (s # t # ss) = s @ sep @ intercalate sep (t # ss)"

text \<open>Decimal digits; \<open>digit_char\<close> is applied to numbers below 10 only.\<close>

definition digit_char :: "nat \<Rightarrow> char" where
  "digit_char d = ''0123456789'' ! d"

fun show_nat :: "nat \<Rightarrow> string" where
  "show_nat n = (if n < 10 then [digit_char n] else show_nat (n div 10) @ [digit_char (n mod 10)])"

definition show_int :: "int \<Rightarrow> string" where
  "show_int i = (if i < 0 then ''-'' @ show_nat (nat (- i)) else show_nat (nat i))"

text \<open>Results collected in order; the first thrown value ends the collection.\<close>

fun sequence :: "(thrown + 'a) list \<Rightarrow> thrown + 'a list" where
  "sequence [] = Inr []"
| "sequence (r # rs) = then_do r (\<lambda>x. then_do (sequence rs) (\<lambda>xs. Inr (x # xs)))"

definition cannot_convert :: thrown where
  "cannot_convert = Err TypeError ''Cannot convert object to primitive value''"

text \<open>
  \<^verbatim>\<open>ToString(v)\<close>, which a template literal and \<^verbatim>\<open>Array.prototype.join\<close> apply. An array is
  joined with commas, its null and undefined elements rendered as the empty string. An
  object is converted by its \<^verbatim>\<open>toString\<close> method: the inherited one answers
  \<^verbatim>\<open>[object Object]\<close>; an own property \<^verbatim>\<open>toString\<close> hides it and, not being callable, leaves
  only \<^verbatim>\<open>valueOf\<close>, which cannot give a primitive, so the conversion throws a TypeError.
\<close>

fun ToString :: "jsval \<Rightarrow> thrown + string" where
  "ToString JUndefined = Inr ''undefined''"
| "ToString JNull = Inr ''null''"
| "ToString (JBool b) = Inr (if b then ''true'' else ''false'')"
| "ToString (JNum n) = Inr (show_int (Rep_safe_integer n))"
| "ToString (JStr s) = Inr s"
| "ToString (JArr xs) =
     then_do (sequence (map (\<lambda>x. if x = JUndefined \<or> x = JNull then Inr [] else ToString x) xs))
       (\<lambda>ss. Inr (intercalate '','' ss))"
| "ToString (JObj kvs) =
     (if map_of kvs ''toString'' = None then Inr ''[object Object]'' else Inl cannot_convert)"

text \<open>\<^verbatim>\<open>xs.join(sep)\<close>.\<close>

definition join :: "jsval list \<Rightarrow> string \<Rightarrow> thrown + string" where
  "join xs sep =
     then_do (sequence (map (\<lambda>x. if nullish x then Inr [] else ToString x) xs))
       (\<lambda>ss. Inr (intercalate sep ss))"

text \<open>
  \<^verbatim>\<open>JSON.stringify\<close>: string quoting with the escapes of ECMAScript's QuoteJSONString;
  \<open>hex_char\<close> is applied to numbers below 16 only.
\<close>

definition hex_char :: "nat \<Rightarrow> char" where
  "hex_char d = ''0123456789abcdef'' ! d"

definition escape_char :: "char \<Rightarrow> string" where
  "escape_char c =
     (if c = CHR 0x22 then [CHR 0x5C, CHR 0x22]
      else if c = CHR 0x5C then [CHR 0x5C, CHR 0x5C]
      else if c = CHR 0x08 then [CHR 0x5C, CHR ''b'']
      else if c = CHR 0x0C then [CHR 0x5C, CHR ''f'']
      else if c = CHR 0x0A then [CHR 0x5C, CHR ''n'']
      else if c = CHR 0x0D then [CHR 0x5C, CHR ''r'']
      else if c = CHR 0x09 then [CHR 0x5C, CHR ''t'']
      else if (of_char c :: nat) < 32 then
        [CHR 0x5C, CHR ''u'', CHR ''0'', CHR ''0'',
         hex_char ((of_char c :: nat) div 16), hex_char ((of_char c :: nat) mod 16)]
      else [c])"

definition quote :: "string \<Rightarrow> string" where
  "quote s = [CHR 0x22] @ concat (map escape_char s) @ [CHR 0x22]"

text \<open>
  The serialisation of a value other than undefined. Inside an array undefined is written
  as null; a property whose value is undefined is left out.
\<close>

fun serialize :: "jsval \<Rightarrow> string" where
  "serialize JUndefined = ''null''"
| "serialize JNull = ''null''"
| "serialize (JBool b) = (if b then ''true'' else ''false'')"
| "serialize (JNum n) = show_int (Rep_safe_integer n)"
| "serialize (JStr s) = quote s"
| "serialize (JArr xs) = ''['' @ intercalate '','' (map serialize xs) @ '']''"
| "serialize (JObj kvs) =
     ''{'' @ intercalate '','' (map (\<lambda>(k, v). quote k @ '':'' @ serialize v)
                                  (filter (\<lambda>(k, v). v \<noteq> JUndefined) kvs)) @ ''}''"

definition JSON_stringify :: "jsval \<Rightarrow> jsval" where
  "JSON_stringify v = (if v = JUndefined then JUndefined else JStr (serialize v))"

section \<open>Response normalizer of the code-interpreter client\<close>

text \<open>
  \<^verbatim>\<open>_extractFromContentArray\<close>: the body of the loop computes the part pushed for one item.
  Reading a property has no effect, so \<^verbatim>\<open>item.resource\<close> may be read before the test of
  \<^verbatim>\<open>item.type\<close> that guards it.
\<close>

definition extractPart :: "jsval \<Rightarrow> thrown + jsval" where
  "extractPart item =
     then_do (get item ''type'') (\<lambda>ty.
       if ty = JStr ''text'' then get item ''text''
       else then_do (get item ''resource'') (\<lambda>resource.
         if ty = JStr ''resource'' \<and> truthy resource then
           then_do (get resource ''text'') (\<lambda>text.
             if truthy text then Inr text else Inr (JSON_stringify resource))
         else if ty = JStr ''resource_link'' then
           then_do (get item ''name'') (\<lambda>name.
           then_do (get item ''description'') (\<lambda>description.
           then_do (get item ''mimeType'') (\<lambda>mimeType.
           then_do (get item ''uri'') (\<lambda>uri.
             then_do (join (filter truthy [name, description, mimeType]) '' - '') (\<lambda>meta.
             then_do (ToString uri) (\<lambda>u. Inr (JStr (meta @ '' ('' @ u @ '')''))))))))
         else Inr (JSON_stringify item)))"

fun extractParts :: "jsval list \<Rightarrow> thrown + jsval list" where
  "extractParts [] = Inr []"
| "extractParts (item # content) =
     then_do (extractPart item) (\<lambda>part.
     then_do (extractParts content) (\<lambda>parts. Inr (part # parts)))"

definition extractFromContentArray :: "jsval list \<Rightarrow> thrown + string" where
  "extractFromContentArray content =
     then_do (extractParts content) (\<lambda>parts. join parts [CHR 0x0A])"

text \<open>
  The three-way dispatch on a truthy \<^verbatim>\<open>content\<close>, written out twice in
  \<^verbatim>\<open>_parseInvokeResponse\<close> (once for a streamed event, once for a plain response).
\<close>

definition contentToString :: "jsval \<Rightarrow> thrown + jsval" where
  "contentToString content =
     (case content of
        JArr items \<Rightarrow> then_do (extractFromContentArray items) (\<lambda>s. Inr (JStr s))
      | JStr s \<Rightarrow> Inr (JStr s)
      | _ \<Rightarrow> Inr (JSON_stringify content))"

text \<open>The body of the \<^verbatim>\<open>for await\<close> loop: the new value of \<^verbatim>\<open>contentStr\<close>.\<close>

definition parseEvent :: "jsval \<Rightarrow> jsval \<Rightarrow> thrown + jsval" where
  "parseEvent contentStr event =
     then_do (get event ''result'') (\<lambda>result.
     then_do (if truthy (optget result ''content'')
              then contentToString (optget result ''content'')
              else Inr contentStr) (\<lambda>contentStr'.
     then_do (get event ''error'') (\<lambda>error.
       if truthy error then
         then_do (get error ''message'') (\<lambda>message.
           Inr (if truthy message then message else JStr ''Unknown error''))
       else Inr contentStr')))"

fun parseStream :: "jsval \<Rightarrow> jsval list \<Rightarrow> thrown + jsval" where
  "parseStream contentStr [] = Inr contentStr"
| "parseStream contentStr (event # events) =
     then_do (parseEvent contentStr event) (\<lambda>contentStr'. parseStream contentStr' events)"

definition parseInvokeResponse :: "jsval \<Rightarrow> thrown + jsval" where
  "parseInvokeResponse response =
     then_do (get response ''stream'') (\<lambda>stream.
       if truthy stream then
         then_do (iterate stream) (\<lambda>events. parseStream (JStr []) events)
       else
         then_do (get response ''result'') (\<lambda>result.
           if truthy (optget result ''content'')
           then contentToString (optget result ''content'')
           else Inr (JStr [])))"

section \<open>Sessions and the transport\<close>

type_synonym date = nat

record sessionInfo =
  sessionName :: string
  sessionId :: "string option"
  createdAt :: "date option"
  description :: "string option"

text \<open>
  The commands handed to \<^verbatim>\<open>this._client.send\<close>, with the fields the clients fill in
  (identifier first). A session id read through \<^verbatim>\<open>!\<close> may be undefined at run time.
\<close>

datatype command =
    StartCodeInterpreterSessionCommand string string int
  | StopCodeInterpreterSessionCommand string "string option"
  | InvokeCodeInterpreterCommand string "string option" string jsval
  | StartBrowserSessionCommand string string int "(int \<times> int) option"
  | StopBrowserSessionCommand string "string option"
  | GetBrowserSessionCommand string string
  | UpdateBrowserStreamCommand string string string

datatype startSessionOutput =
  StartSessionOutput (out_sessionId: "string option") (out_createdAt: "date option")

record streamOutput =
  streamEndpoint :: "string option"
  streamStatus :: "string option"

record streamsOutput =
  automationStream :: "streamOutput option"
  liveViewStream :: "streamOutput option"

record getSessionOutput =
  get_sessionId :: "string option"
  get_browserIdentifier :: "string option"
  get_name :: "string option"
  get_status :: "string option"
  get_createdAt :: "date option"
  get_lastUpdatedAt :: "date option"
  get_sessionTimeoutSeconds :: "int option"
  get_streams :: "streamsOutput option"

text \<open>
  The remote service is an external collaborator: \<^verbatim>\<open>send\<close> either resolves to the output
  of the command's type or rejects with a thrown value. Its answer may depend on the commands
  sent before (the first argument), so that every sequence of outcomes can be fed in.
\<close>

record transport =
  sendStart :: "command list \<Rightarrow> command \<Rightarrow> thrown + startSessionOutput"
  sendStop :: "command list \<Rightarrow> command \<Rightarrow> thrown + unit"
  sendInvoke :: "command list \<Rightarrow> command \<Rightarrow> thrown + jsval"
  sendGet :: "command list \<Rightarrow> command \<Rightarrow> thrown + getSessionOutput"
  sendUpdate :: "command list \<Rightarrow> command \<Rightarrow> thrown + streamsOutput option"

text \<open>
  The fields of a client instance (both families): the configuration (\<open>ident\<close> is the field
  \<^verbatim>\<open>identifier\<close>), the session slot
  \<^verbatim>\<open>_session\<close>, and a record of the commands sent so far, kept to count remote calls.
\<close>

record client =
  region :: string
  ident :: string
  session :: "sessionInfo option"
  sent :: "command list"

text \<open>
  \<^verbatim>\<open>DEFAULT_SESSION_NAME\<close> is declared once per family; the browser's declaration and the
  code-interpreter's tests give the same value.
\<close>

definition DEFAULT_SESSION_NAME :: string where
  "DEFAULT_SESSION_NAME = ''default''"

definition already_active :: thrown where
  "already_active = Err GenericError ''Session already active. Call stopSession() first.''"

section \<open>Code-interpreter client\<close>

record startSessionParams =
  p_sessionName :: "string option"
  p_description :: "string option"
  p_timeout :: "int option"

text \<open>
  \<^verbatim>\<open>CodeInterpreter.startSession\<close>. The constant \<^verbatim>\<open>DEFAULT_TIMEOUT\<close> of the code-interpreter
  family is declared in a file that is not among the sources; it is the parameter \<open>dt\<close>.
\<close>

definition CodeInterpreter_startSession ::
  "transport \<Rightarrow> int \<Rightarrow> startSessionParams option \<Rightarrow> 'a client_scheme
     \<Rightarrow> (thrown + sessionInfo) \<times> 'a client_scheme" where
  "CodeInterpreter_startSession t dt params st =
     (if session st \<noteq> None then (Inl already_active, st)
      else
        let name = (case Option.bind params p_sessionName of Some n \<Rightarrow> n | None \<Rightarrow> DEFAULT_SESSION_NAME);
            command = StartCodeInterpreterSessionCommand (ident st) name
                        (case Option.bind params p_timeout of Some n \<Rightarrow> n | None \<Rightarrow> dt);
            st1 = st\<lparr>sent := sent st @ [command]\<rparr>
        in (case sendStart t (sent st) command of
              Inl e \<Rightarrow> (Inl e, st1)
            | Inr response \<Rightarrow>
                (let info = \<lparr>sessionName = name,
                             sessionId = out_sessionId response,
                             createdAt = out_createdAt response,
                             description = Option.bind params p_description\<rparr>
                 in (Inr info, st1\<lparr>session := Some info\<rparr>))))"

definition CodeInterpreter_stopSession ::
  "transport \<Rightarrow> 'a client_scheme \<Rightarrow> (thrown + unit) \<times> 'a client_scheme" where
  "CodeInterpreter_stopSession t st =
     (case session st of
        None \<Rightarrow> (Inr (), st)
      | Some s \<Rightarrow>
          let command = StopCodeInterpreterSessionCommand (ident st) (sessionId s);
              st1 = st\<lparr>sent := sent st @ [command]\<rparr>
          in (case sendStop t (sent st) command of
                Inl e \<Rightarrow> (Inl e, st1)
              | Inr _ \<Rightarrow> (Inr (), st1\<lparr>session := None\<rparr>)))"

text \<open>
  The six operations (\<^verbatim>\<open>executeCode\<close>, \<^verbatim>\<open>executeCommand\<close>, \<^verbatim>\<open>readFiles\<close>, \<^verbatim>\<open>writeFiles\<close>,
  \<^verbatim>\<open>listFiles\<close>, \<^verbatim>\<open>removeFiles\<close>) have the same body; they differ in the operation name, the
  arguments and the message used when the caught value is not an \<^verbatim>\<open>Error\<close>. The session
  is ensured before the \<^verbatim>\<open>try\<close> block is entered.
\<close>

definition caught :: "string \<Rightarrow> thrown \<Rightarrow> jsval" where
  "caught fallback e = JStr (''Error: '' @ (case e of Err c m \<Rightarrow> m | NonError v \<Rightarrow> fallback))"

definition invokeOperation ::
  "transport \<Rightarrow> int \<Rightarrow> string \<Rightarrow> jsval \<Rightarrow> string \<Rightarrow> 'a client_scheme
     \<Rightarrow> (thrown + jsval) \<times> 'a client_scheme" where
  "invokeOperation t dt name arguments fallback st =
     (case (if session st = None
            then (case CodeInterpreter_startSession t dt None st of
                    (Inl e, st1) \<Rightarrow> (Some e, st1)
                  | (Inr _, st1) \<Rightarrow> (None, st1))
            else (None, st)) of
        (Some e, st1) \<Rightarrow> (Inl e, st1)
      | (None, st1) \<Rightarrow>
          (case session st1 of
             None \<Rightarrow>
               (Inr (caught fallback
                  (Err TypeError ''Cannot read properties of null (reading 'sessionId')'')), st1)
           | Some s \<Rightarrow>
               let command = InvokeCodeInterpreterCommand (ident st1) (sessionId s) name arguments;
                   st2 = st1\<lparr>sent := sent st1 @ [command]\<rparr>
               in (case sendInvoke t (sent st1) command of
                     Inl e \<Rightarrow> (Inr (caught fallback e), st2)
                   | Inr response \<Rightarrow>
                       (case parseInvokeResponse response of
                          Inl e \<Rightarrow> (Inr (caught fallback e), st2)
                        | Inr contentStr \<Rightarrow> (Inr contentStr, st2)))))"

record executeCodeParams =
  e_code :: string
  e_language :: "string option"
  e_clearContext :: "bool option"

record fileContent =
  f_path :: string
  f_content :: string

text \<open>A call of one of the six operations, with its parameters.\<close>

datatype operation =
    ExecuteCode executeCodeParams
  | ExecuteCommand string
  | ReadFiles "string list"
  | WriteFiles "fileContent list"
  | ListFiles "string option"
  | RemoveFiles "string list"

fun operationName :: "operation \<Rightarrow> string" where
  "operationName (ExecuteCode params) = ''executeCode''"
| "operationName (ExecuteCommand command) = ''executeCommand''"
| "operationName (ReadFiles paths) = ''readFiles''"
| "operationName (WriteFiles files) = ''writeFiles''"
| "operationName (ListFiles p) = ''listFiles''"
| "operationName (RemoveFiles paths) = ''removeFiles''"

fun operationArguments :: "operation \<Rightarrow> jsval" where
  "operationArguments (ExecuteCode params) =
     JObj ([(''code'', JStr (e_code params)),
            (''language'', JStr (case e_language params of Some l \<Rightarrow> l | None \<Rightarrow> ''python''))]
           @ (case e_clearContext params of Some b \<Rightarrow> [(''clearContext'', JBool b)] | None \<Rightarrow> []))"
| "operationArguments (ExecuteCommand command) = JObj [(''command'', JStr command)]"
| "operationArguments (ReadFiles paths) = JObj [(''paths'', JArr (map JStr paths))]"
| "operationArguments (WriteFiles files) =
     JObj [(''content'',
            JArr (map (\<lambda>f. JObj [(''path'', JStr (f_path f)), (''text'', JStr (f_content f))]) files))]"
| "operationArguments (ListFiles p) =
     JObj [(''path'', JStr (case p of Some d \<Rightarrow> d | None \<Rightarrow> ''.''))]"
| "operationArguments (RemoveFiles paths) = JObj [(''paths'', JArr (map JStr paths))]"

fun operationFallback :: "operation \<Rightarrow> string" where
  "operationFallback (ExecuteCode params) = ''Unknown execution error''"
| "operationFallback (ExecuteCommand command) = ''Command execution failed''"
| "operationFallback (ReadFiles paths) = ''Read failed''"
| "operationFallback (WriteFiles files) = ''Write failed''"
| "operationFallback (ListFiles p) = ''List failed''"
| "operationFallback (RemoveFiles paths) = ''Remove failed''"

definition call ::
  "transport \<Rightarrow> int \<Rightarrow> operation \<Rightarrow> 'a client_scheme \<Rightarrow> (thrown + jsval) \<times> 'a client_scheme" where
  "call t dt op =
     invokeOperation t dt (operationName op) (operationArguments op) (operationFallback op)"

definition executeCode ::
  "transport \<Rightarrow> int \<Rightarrow> executeCodeParams \<Rightarrow> 'a client_scheme \<Rightarrow> (thrown + jsval) \<times> 'a client_scheme" where
  "executeCode t dt params = call t dt (ExecuteCode params)"

definition executeCommand ::
  "transport \<Rightarrow> int \<Rightarrow> string \<Rightarrow> 'a client_scheme \<Rightarrow> (thrown + jsval) \<times> 'a client_scheme" where
  "executeCommand t dt command = call t dt (ExecuteCommand command)"

definition readFiles ::
  "transport \<Rightarrow> int \<Rightarrow> string list \<Rightarrow> 'a client_scheme \<Rightarrow> (thrown + jsval) \<times> 'a client_scheme" where
  "readFiles t dt paths = call t dt (ReadFiles paths)"

definition writeFiles ::
  "transport \<Rightarrow> int \<Rightarrow> fileContent list \<Rightarrow> 'a client_scheme \<Rightarrow> (thrown + jsval) \<times> 'a client_scheme" where
  "writeFiles t dt files = call t dt (WriteFiles files)"

definition listFiles ::
  "transport \<Rightarrow> int \<Rightarrow> string option \<Rightarrow> 'a client_scheme \<Rightarrow> (thrown + jsval) \<times> 'a client_scheme" where
  "listFiles t dt p = call t dt (ListFiles p)"

definition removeFiles ::
  "transport \<Rightarrow> int \<Rightarrow> string list \<Rightarrow> 'a client_scheme \<Rightarrow> (thrown + jsval) \<times> 'a client_scheme" where
  "removeFiles t dt paths = call t dt (RemoveFiles paths)"

section \<open>Browser client\<close>

definition DEFAULT_TIMEOUT :: int where
  "DEFAULT_TIMEOUT = 3600"

record browserStartSessionParams =
  b_sessionName :: "string option"
  b_timeout :: "int option"
  b_viewport :: "(int \<times> int) option"

text \<open>\<^verbatim>\<open>Browser.startSession\<close>; \<open>now\<close> is the value of \<^verbatim>\<open>new Date()\<close>.\<close>

definition Browser_startSession ::
  "transport \<Rightarrow> date \<Rightarrow> browserStartSessionParams option \<Rightarrow> 'a client_scheme
     \<Rightarrow> (thrown + sessionInfo) \<times> 'a client_scheme" where
  "Browser_startSession t now params st =
     (if session st \<noteq> None then (Inl already_active, st)
      else
        let name = (case Option.bind params b_sessionName of Some n \<Rightarrow> n | None \<Rightarrow> DEFAULT_SESSION_NAME);
            sessionTimeoutSeconds =
              (case Option.bind params b_timeout of Some n \<Rightarrow> n | None \<Rightarrow> DEFAULT_TIMEOUT);
            command = StartBrowserSessionCommand (ident st) name sessionTimeoutSeconds
                        (Option.bind params b_viewport);
            st1 = st\<lparr>sent := sent st @ [command]\<rparr>
        in (case sendStart t (sent st) command of
              Inl e \<Rightarrow> (Inl e, st1)
            | Inr response \<Rightarrow>
                (let info = \<lparr>sessionName = name,
                             sessionId = out_sessionId response,
                             createdAt = (case out_createdAt response of
                                            Some d \<Rightarrow> Some d | None \<Rightarrow> Some now),
                             description = None\<rparr>
                 in (Inr info, st1\<lparr>session := Some info\<rparr>))))"

definition Browser_stopSession ::
  "transport \<Rightarrow> 'a client_scheme \<Rightarrow> (thrown + unit) \<times> 'a client_scheme" where
  "Browser_stopSession t st =
     (case session st of
        None \<Rightarrow> (Inr (), st)
      | Some s \<Rightarrow>
          let command = StopBrowserSessionCommand (ident st) (sessionId s);
              st1 = st\<lparr>sent := sent st @ [command]\<rparr>
          in (case sendStop t (sent st) command of
                Inl e \<Rightarrow> (Inl e, st1)
              | Inr _ \<Rightarrow> (Inr (), st1\<lparr>session := None\<rparr>)))"

subsection \<open>Session metadata\<close>

record sessionTarget =
  t_browserId :: "string option"
  t_sessionId :: "string option"

record getSessionResponse =
  r_sessionId :: "string option"
  r_browserIdentifier :: "string option"
  r_name :: "string option"
  r_status :: string
  r_createdAt :: "date option"
  r_lastUpdatedAt :: "date option"
  r_sessionTimeoutSeconds :: "int option"
  r_streams :: "streamsOutput option"

definition ids_required :: thrown where
  "ids_required = Err GenericError
     (''Browser ID and Session ID must be provided or available from current session. '' @
      ''Start a session first or provide explicit IDs.'')"

text \<open>A string that may be undefined is truthy when it is present and not empty.\<close>

definition present :: "string option \<Rightarrow> bool" where
  "present s = (case s of Some x \<Rightarrow> x \<noteq> [] | None \<Rightarrow> False)"

text \<open>
  \<^verbatim>\<open>params?.sessionId ?? this._session?.sessionId\<close>, the target session of \<^verbatim>\<open>getSession\<close>
  and \<^verbatim>\<open>updateBrowserStream\<close>.
\<close>

definition targetSessionId :: "sessionTarget option \<Rightarrow> 'a client_scheme \<Rightarrow> string option" where
  "targetSessionId params st =
     (case Option.bind params t_sessionId of
        Some i \<Rightarrow> Some i
      | None \<Rightarrow> Option.bind (session st) sessionId)"

definition targetBrowserId :: "sessionTarget option \<Rightarrow> 'a client_scheme \<Rightarrow> string" where
  "targetBrowserId params st =
     (case Option.bind params t_browserId of Some b \<Rightarrow> b | None \<Rightarrow> ident st)"

definition selectStreams :: "streamsOutput \<Rightarrow> streamsOutput" where
  "selectStreams streams =
     \<lparr>automationStream =
        (case automationStream streams of
           None \<Rightarrow> None
         | Some autoStream \<Rightarrow>
             if present (streamEndpoint autoStream)
             then Some \<lparr>streamEndpoint = streamEndpoint autoStream,
                        streamStatus = (if present (streamStatus autoStream)
                                        then streamStatus autoStream else None)\<rparr>
             else None),
      liveViewStream =
        (case liveViewStream streams of
           None \<Rightarrow> None
         | Some liveStream \<Rightarrow>
             if present (streamEndpoint liveStream)
             then Some \<lparr>streamEndpoint = streamEndpoint liveStream, streamStatus = None\<rparr>
             else None)\<rparr>"

definition getSession ::
  "transport \<Rightarrow> sessionTarget option \<Rightarrow> 'a client_scheme
     \<Rightarrow> (thrown + getSessionResponse) \<times> 'a client_scheme" where
  "getSession t params st =
     (let browserId = targetBrowserId params st;
          sessionId = targetSessionId params st
      in case (if browserId = [] \<or> \<not> present sessionId then None else sessionId) of
           None \<Rightarrow> (Inl ids_required, st)
         | Some sid \<Rightarrow>
           let command = GetBrowserSessionCommand browserId sid;
               st1 = st\<lparr>sent := sent st @ [command]\<rparr>
           in (case sendGet t (sent st) command of
                 Inl e \<Rightarrow> (Inl e, st1)
               | Inr response \<Rightarrow>
                   (Inr \<lparr>r_sessionId = get_sessionId response,
                         r_browserIdentifier = get_browserIdentifier response,
                         r_name = get_name response,
                         r_status = (case get_status response of Some x \<Rightarrow> x | None \<Rightarrow> ''UNKNOWN''),
                         r_createdAt = get_createdAt response,
                         r_lastUpdatedAt = (case get_lastUpdatedAt response of
                                              Some d \<Rightarrow> Some d | None \<Rightarrow> get_createdAt response),
                         r_sessionTimeoutSeconds = get_sessionTimeoutSeconds response,
                         r_streams = map_option selectStreams (get_streams response)\<rparr>, st1)))"

definition updateBrowserStream ::
  "transport \<Rightarrow> sessionTarget \<Rightarrow> string \<Rightarrow> 'a client_scheme
     \<Rightarrow> (thrown + streamOutput) \<times> 'a client_scheme" where
  "updateBrowserStream t params status st =
     (let browserId = targetBrowserId (Some params) st;
          sessionId = targetSessionId (Some params) st
      in case (if browserId = [] \<or> \<not> present sessionId then None else sessionId) of
           None \<Rightarrow> (Inl ids_required, st)
         | Some sid \<Rightarrow>
           let command = UpdateBrowserStreamCommand browserId sid status;
               st1 = st\<lparr>sent := sent st @ [command]\<rparr>
           in (case sendUpdate t (sent st) command of
                 Inl e \<Rightarrow> (Inl e, st1)
               | Inr streams \<Rightarrow>
                   (let auto = Option.bind streams automationStream
                    in (Inr \<lparr>streamEndpoint =
                               (if present (Option.bind auto streamEndpoint)
                                then Option.bind auto streamEndpoint else None),
                             streamStatus =
                               (if present (Option.bind auto streamStatus)
                                then Option.bind auto streamStatus else None)\<rparr>, st1))))"

section \<open>Playwright browser client\<close>

text \<open>
  The automation library and the request signer are external collaborators. A connected
  browser exposes its contexts and their pages; pages and elements are opaque handles.
  Every call into the library that reaches the remote browser is recorded, with its
  arguments, and its outcome may depend on the calls before. The calls that resolve to
  nothing the client reads (\<^verbatim>\<open>goto\<close>, \<^verbatim>\<open>click\<close>, \<^verbatim>\<open>type\<close>, \<^verbatim>\<open>fill\<close>, \<^verbatim>\<open>waitForSelector\<close>,
  \<^verbatim>\<open>keyboard.press\<close>, \<^verbatim>\<open>reload\<close>, \<^verbatim>\<open>addCookies\<close>) are answered by \<open>perform\<close>, \<^verbatim>\<open>textContent\<close> of
  a page or an element by \<open>textContent\<close>, \<^verbatim>\<open>innerHTML\<close> and \<^verbatim>\<open>content\<close> by \<open>markup\<close>, and
  \<^verbatim>\<open>screenshot\<close> by \<open>capture\<close>.
\<close>

type_synonym page = nat
type_synonym element = nat
type_synonym buffer = "nat list"

datatype pwContext = PwContext (pages: "page list")

datatype pwBrowser = PwBrowser (contexts: "pwContext list")

datatype pw_call =
    ConnectOverCDP string "(string \<times> string) list"
  | NewPage
  | BrowserClose
  | Query page string
  | ElementIsVisible element
  | GoBack page string int
  | GoForward page string int
  | Evaluate page string
  | Goto page string string "int option"
  | Click page string "int option"
  | TypeText page string string "int option" "int option"
  | Fill page string string "int option"
  | WaitForSelector page string int string
  | KeyboardPress page string
  | Reload page
  | AddCookies page "jsval list"
  | Cookies page
  | EvaluateArgs page string "jsval list option"
  | Screenshot page "string option" bool string
  | PageTextContent page string
  | Content page
  | ElementTextContent element
  | ElementInnerHTML element

record automation =
  importPlaywright :: "thrown option"
  sign :: "string \<Rightarrow> string \<Rightarrow> thrown + (string \<times> jsval) list"
  connectOverCDP :: "pw_call list \<Rightarrow> pw_call \<Rightarrow> thrown + pwBrowser"
  newPage :: "pw_call list \<Rightarrow> pw_call \<Rightarrow> thrown + page"
  closeBrowser :: "pw_call list \<Rightarrow> pw_call \<Rightarrow> thrown + unit"
  query :: "pw_call list \<Rightarrow> pw_call \<Rightarrow> thrown + element option"
  elementIsVisible :: "pw_call list \<Rightarrow> pw_call \<Rightarrow> thrown + bool"
  goBack :: "pw_call list \<Rightarrow> pw_call \<Rightarrow> thrown + unit"
  goForward :: "pw_call list \<Rightarrow> pw_call \<Rightarrow> thrown + unit"
  evaluate :: "pw_call list \<Rightarrow> pw_call \<Rightarrow> thrown + jsval"
  perform :: "pw_call list \<Rightarrow> pw_call \<Rightarrow> thrown + unit"
  cookies :: "pw_call list \<Rightarrow> pw_call \<Rightarrow> thrown + jsval list"
  capture :: "pw_call list \<Rightarrow> pw_call \<Rightarrow> thrown + buffer"
  textContent :: "pw_call list \<Rightarrow> pw_call \<Rightarrow> thrown + string option"
  markup :: "pw_call list \<Rightarrow> pw_call \<Rightarrow> thrown + string"

record pwClient = client +
  playwrightBrowser :: "pwBrowser option"
  playwrightPage :: "page option"
  calls :: "pw_call list"

record webSocketConnection =
  url :: string
  headers :: "(string \<times> string) list"

text \<open>
  \<^verbatim>\<open>Browser.generateWebSocketUrl\<close>. \<open>sign a host path\<close> stands for resolving the credentials
  and signing the request; it yields the signed headers or throws.
\<close>

definition generateWebSocketUrl ::
  "automation \<Rightarrow> 'a client_scheme \<Rightarrow> thrown + webSocketConnection" where
  "generateWebSocketUrl a st =
     (case session st of
        None \<Rightarrow> Inl (Err GenericError ''No active session. Call startSession() first.'')
      | Some s \<Rightarrow>
          let host = ''bedrock-agentcore.'' @ region st @ ''.amazonaws.com'';
              path = ''/browser-streams/'' @ ident st @ ''/sessions/''
                     @ (case sessionId s of Some i \<Rightarrow> i | None \<Rightarrow> ''undefined'') @ ''/automation'';
              wsUrl = ''wss://'' @ host @ path
          in (case sign a host path of
                Inl e \<Rightarrow> Inl e
              | Inr signedHeaders \<Rightarrow>
                  Inr \<lparr>url = wsUrl,
                       headers = concat (map (\<lambda>(key, v). case v of JStr x \<Rightarrow> [(key, x)] | _ \<Rightarrow> [])
                                             signedHeaders)\<rparr>))"

definition connectPlaywright ::
  "automation \<Rightarrow> 'a pwClient_scheme \<Rightarrow> (thrown + unit) \<times> 'a pwClient_scheme" where
  "connectPlaywright a st =
     (if session st = None then (Inl (Err GenericError ''No active session''), st)
      else case importPlaywright a of
        Some e \<Rightarrow> (Inl e, st)
      | None \<Rightarrow>
        (case generateWebSocketUrl a st of
           Inl e \<Rightarrow> (Inl e, st)
         | Inr wsConnection \<Rightarrow>
             let c = ConnectOverCDP (url wsConnection) (headers wsConnection);
                 st1 = st\<lparr>calls := calls st @ [c]\<rparr>
             in (case connectOverCDP a (calls st) c of
                   Inl e \<Rightarrow> (Inl e, st1)
                 | Inr b \<Rightarrow>
                     (let st2 = st1\<lparr>playwrightBrowser := Some b\<rparr>
                      in case contexts b of
                           [] \<Rightarrow> (Inl (Err GenericError ''No browser contexts available''), st2)
                         | context # _ \<Rightarrow>
                             (case pages context of
                                [] \<Rightarrow>
                                  (let st3 = st2\<lparr>calls := calls st2 @ [NewPage]\<rparr>
                                   in case newPage a (calls st2) NewPage of
                                        Inl e \<Rightarrow> (Inl e, st3)
                                      | Inr p \<Rightarrow> (Inr (), st3\<lparr>playwrightPage := Some p\<rparr>))
                              | p # _ \<Rightarrow> (Inr (), st2\<lparr>playwrightPage := Some p\<rparr>))))))"

definition ensureConnected ::
  "transport \<Rightarrow> automation \<Rightarrow> date \<Rightarrow> 'a pwClient_scheme \<Rightarrow> (thrown + unit) \<times> 'a pwClient_scheme" where
  "ensureConnected t a now st =
     (case (if session st = None
            then (case Browser_startSession t now None st of
                    (Inl e, st1) \<Rightarrow> (Some e, st1)
                  | (Inr _, st1) \<Rightarrow> (None, st1))
            else (None, st)) of
        (Some e, st1) \<Rightarrow> (Inl e, st1)
      | (None, st1) \<Rightarrow>
          if playwrightBrowser st1 = None \<or> playwrightPage st1 = None
          then connectPlaywright a st1
          else (Inr (), st1))"

text \<open>
  \<^verbatim>\<open>PlaywrightBrowser.stopSession\<close>: a failure of \<^verbatim>\<open>close()\<close> is caught (and logged), then the
  inherited \<^verbatim>\<open>stopSession\<close> runs.
\<close>

definition PlaywrightBrowser_stopSession ::
  "transport \<Rightarrow> automation \<Rightarrow> 'a pwClient_scheme \<Rightarrow> (thrown + unit) \<times> 'a pwClient_scheme" where
  "PlaywrightBrowser_stopSession t a st =
     (let st1 =
        (case playwrightBrowser st of
           None \<Rightarrow> st
         | Some b \<Rightarrow>
             (case closeBrowser a (calls st) BrowserClose of
                Inl e \<Rightarrow> st\<lparr>calls := calls st @ [BrowserClose]\<rparr>
              | Inr _ \<Rightarrow> st\<lparr>calls := calls st @ [BrowserClose],
                             playwrightBrowser := None, playwrightPage := None\<rparr>))
      in Browser_stopSession t st1)"

text \<open>
  Reading a method of \<^verbatim>\<open>this._playwrightPage\<close> while it is null throws a TypeError. Inside a
  \<^verbatim>\<open>try\<close> it is caught like any other failure: \<^verbatim>\<open>isVisible\<close> then answers false, and
  \<^verbatim>\<open>back\<close>/\<^verbatim>\<open>forward\<close> fall through to the last strategy, whose TypeError propagates.
\<close>

definition no_page :: "string \<Rightarrow> thrown" where
  "no_page method =
     Err TypeError (''Cannot read properties of null (reading '' @ [CHR 0x27] @ method @ [CHR 0x27] @ '')'')"

definition isVisible ::
  "transport \<Rightarrow> automation \<Rightarrow> date \<Rightarrow> string \<Rightarrow> 'a pwClient_scheme
     \<Rightarrow> (thrown + bool) \<times> 'a pwClient_scheme" where
  "isVisible t a now selector st =
     (case ensureConnected t a now st of
        (Inl e, st1) \<Rightarrow> (Inl e, st1)
      | (Inr _, st1) \<Rightarrow>
          (case playwrightPage st1 of
             None \<Rightarrow> (Inr False, st1)
           | Some p \<Rightarrow>
               let st2 = st1\<lparr>calls := calls st1 @ [Query p selector]\<rparr>
               in (case query a (calls st1) (Query p selector) of
                     Inl e \<Rightarrow> (Inr False, st2)
                   | Inr None \<Rightarrow> (Inr False, st2)
                   | Inr (Some el) \<Rightarrow>
                       (let st3 = st2\<lparr>calls := calls st2 @ [ElementIsVisible el]\<rparr>
                        in case elementIsVisible a (calls st2) (ElementIsVisible el) of
                             Inl e \<Rightarrow> (Inr False, st3)
                           | Inr b \<Rightarrow> (Inr b, st3)))))"

text \<open>
  \<^verbatim>\<open>back\<close> and \<^verbatim>\<open>forward\<close> have the same body up to the page method (\<open>go\<close>, logged as \<open>mk\<close>)
  and the script evaluated last. Both \<^verbatim>\<open>catch\<close> clauses are bare: they catch every
  thrown value.
\<close>

definition historyNavigation ::
  "(automation \<Rightarrow> pw_call list \<Rightarrow> pw_call \<Rightarrow> thrown + unit) \<Rightarrow> (page \<Rightarrow> string \<Rightarrow> int \<Rightarrow> pw_call)
     \<Rightarrow> string
     \<Rightarrow> transport \<Rightarrow> automation \<Rightarrow> date \<Rightarrow> 'a pwClient_scheme \<Rightarrow> (thrown + unit) \<times> 'a pwClient_scheme" where
  "historyNavigation go mk script t a now st =
     (case ensureConnected t a now st of
        (Inl e, st1) \<Rightarrow> (Inl e, st1)
      | (Inr _, st1) \<Rightarrow>
          (case playwrightPage st1 of
             None \<Rightarrow> (Inl (no_page ''evaluate''), st1)
           | Some p \<Rightarrow>
               let st2 = st1\<lparr>calls := calls st1 @ [mk p ''networkidle'' 30000]\<rparr>
               in (case go a (calls st1) (mk p ''networkidle'' 30000) of
                     Inr _ \<Rightarrow> (Inr (), st2)
                   | Inl _ \<Rightarrow>
                       (let st3 = st2\<lparr>calls := calls st2 @ [mk p ''load'' 30000]\<rparr>
                        in case go a (calls st2) (mk p ''load'' 30000) of
                             Inr _ \<Rightarrow> (Inr (), st3)
                           | Inl _ \<Rightarrow>
                               (let st4 = st3\<lparr>calls := calls st3 @ [Evaluate p script]\<rparr>
                                in case evaluate a (calls st3) (Evaluate p script) of
                                     Inl e \<Rightarrow> (Inl e, st4)
                                   | Inr _ \<Rightarrow> (Inr (), st4))))))"

definition PlaywrightBrowser_back ::
  "transport \<Rightarrow> automation \<Rightarrow> date \<Rightarrow> 'a pwClient_scheme \<Rightarrow> (thrown + unit) \<times> 'a pwClient_scheme" where
  "PlaywrightBrowser_back = historyNavigation goBack GoBack ''window.history.back()''"

definition PlaywrightBrowser_forward ::
  "transport \<Rightarrow> automation \<Rightarrow> date \<Rightarrow> 'a pwClient_scheme \<Rightarrow> (thrown + unit) \<times> 'a pwClient_scheme" where
  "PlaywrightBrowser_forward = historyNavigation goForward GoForward ''window.history.forward()''"

subsection \<open>Operations on the page\<close>
























section \<open>Shapes of responses\<close>

text \<open>
  A value that can be converted to a string: it is not an object with an own \<^verbatim>\<open>toString\<close>,
  nor an array holding such an object, at any depth of arrays.
\<close>

fun printable :: "jsval \<Rightarrow> bool" where
  "printable (JArr xs) = list_all printable xs"
| "printable (JObj kvs) = (map_of kvs ''toString'' = None)"
| "printable v = True"

text \<open>
  The shapes on which the normalizer is shown to return a string: the response and every
  streamed event are neither null nor undefined, a truthy \<^verbatim>\<open>stream\<close> can be iterated, a
  content array has no null or undefined item, the parts of an item that are converted to
  a string (the text of a text item, the text of a resource, the name, description, MIME
  type and URI of a resource link) can be converted, and the message of an error is a
  string when it is truthy. Items may be of any kind, objects of any depth included.
\<close>

definition item_ok :: "jsval \<Rightarrow> bool" where
  "item_ok item =
     (\<not> nullish item \<and>
      (if field item ''type'' = JStr ''text'' then printable (field item ''text'')
       else if field item ''type'' = JStr ''resource'' \<and> truthy (field item ''resource'')
         then printable (field (field item ''resource'') ''text'')
       else if field item ''type'' = JStr ''resource_link''
         then list_all printable
                [field item ''name'', field item ''description'', field item ''mimeType'',
                 field item ''uri'']
       else True))"

definition items_ok :: "jsval \<Rightarrow> bool" where
  "items_ok c = (case c of JArr items \<Rightarrow> list_all item_ok items | _ \<Rightarrow> True)"

definition message_ok :: "jsval \<Rightarrow> bool" where
  "message_ok event =
     (if truthy (field event ''error'')
      then (case field (field event ''error'') ''message'' of JStr s \<Rightarrow> True | m \<Rightarrow> \<not> truthy m)
      else True)"

definition event_ok :: "jsval \<Rightarrow> bool" where
  "event_ok event =
     (\<not> nullish event \<and> items_ok (field (field event ''result'') ''content'') \<and> message_ok event)"

definition well_shaped :: "jsval \<Rightarrow> bool" where
  "well_shaped response =
     (\<not> nullish response \<and>
      (if truthy (field response ''stream'')
       then (case iterate (field response ''stream'') of
               Inr events \<Rightarrow> list_all event_ok events
             | Inl _ \<Rightarrow> False)
       else items_ok (field (field response ''result'') ''content'')))"

text \<open>
  The outcomes of an invocation on which an operation is shown to resolve to a string: a
  thrown value, or a response in which the message of every streamed error is a string
  when it is truthy.
\<close>

definition messages_ok :: "jsval \<Rightarrow> bool" where
  "messages_ok response =
     (case iterate (field response ''stream'') of
        Inr events \<Rightarrow> list_all message_ok events
      | Inl _ \<Rightarrow> True)"

definition outcome_ok :: "thrown + jsval \<Rightarrow> bool" where
  "outcome_ok r = (case r of Inl e \<Rightarrow> True | Inr response \<Rightarrow> messages_ok response)"

text \<open>The content of an event, when there is any, is converted without a throw.\<close>

definition content_converts :: "jsval \<Rightarrow> bool" where
  "content_converts event =
     (if truthy (field (field event ''result'') ''content'')
      then (case contentToString (field (field event ''result'') ''content'') of
              Inr _ \<Rightarrow> True | Inl _ \<Rightarrow> False)
      else True)"

text \<open>Envelopes as the service and the tests build them.\<close>

definition textItem :: "string \<Rightarrow> jsval" where
  "textItem s = JObj [(''type'', JStr ''text''), (''text'', JStr s)]"

definition contentEnvelope :: "jsval \<Rightarrow> jsval" where
  "contentEnvelope c = JObj [(''result'', JObj [(''content'', c)])]"

definition errorEnvelope :: "jsval \<Rightarrow> jsval" where
  "errorEnvelope e = JObj [(''error'', e)]"

definition streamed :: "jsval list \<Rightarrow> jsval" where
  "streamed events = JObj [(''stream'', JArr events)]"

section \<open>Commands of an operation\<close>

text \<open>
  The command by which \<^verbatim>\<open>startSession()\<close>, called without parameters, creates a session, and
  the command by which an operation is invoked in the session with id \<open>sid\<close>.
\<close>

definition startDefault :: "'a client_scheme \<Rightarrow> int \<Rightarrow> command" where
  "startDefault st dt = StartCodeInterpreterSessionCommand (ident st) DEFAULT_SESSION_NAME dt"

definition invokeCommand :: "operation \<Rightarrow> 'a client_scheme \<Rightarrow> string option \<Rightarrow> command" where
  "invokeCommand op st sid =
     InvokeCodeInterpreterCommand (ident st) sid (operationName op) (operationArguments op)"

text \<open>The client after \<^verbatim>\<open>startSession()\<close> has resolved with the output \<open>out\<close>.\<close>

definition started :: "'a client_scheme \<Rightarrow> int \<Rightarrow> startSessionOutput \<Rightarrow> 'a client_scheme" where
  "started st dt out =
     st\<lparr>sent := sent st @ [startDefault st dt],
        session := Some \<lparr>sessionName = DEFAULT_SESSION_NAME, sessionId = out_sessionId out,
                         createdAt = out_createdAt out, description = None\<rparr>\<rparr>"

definition browserStartDefault :: "'a client_scheme \<Rightarrow> command" where
  "browserStartDefault st =
     StartBrowserSessionCommand (ident st) DEFAULT_SESSION_NAME DEFAULT_TIMEOUT None"

section \<open>Example environments\<close>

text \<open>An object whose own property hides the inherited \<^verbatim>\<open>toString\<close>.\<close>

definition shadowed :: jsval where
  "shadowed = JObj [(''toString'', JStr ''x'')]"

text \<open>A streamed error whose message is a number.\<close>

definition numeric_failure :: jsval where
  "numeric_failure = streamed [errorEnvelope (JObj [(''message'', JNum (number 42))])]"

text \<open>An event carrying both a content array with a null item and an error.\<close>

definition broken_failure :: jsval where
  "broken_failure =
     JObj [(''result'', JObj [(''content'', JArr [JNull])]),
           (''error'', JObj [(''message'', JStr ''boom'')])]"

text \<open>A content array with items of every kind.\<close>

definition mixed_content :: jsval where
  "mixed_content =
     JArr [textItem ''42'',
           JObj [(''type'', JStr ''resource''), (''resource'', JObj [(''text'', JStr ''file body'')])],
           JObj [(''type'', JStr ''resource''), (''resource'', JObj [(''uri'', JStr ''file:///a'')])],
           JObj [(''type'', JStr ''resource_link''), (''name'', JStr ''a.txt''),
                 (''mimeType'', JStr ''text/plain''), (''uri'', JStr ''file:///a.txt'')],
           JObj [(''type'', JStr ''image''), (''size'', JNum (number 3))],
           JNum (number 7)]"

definition unavailable :: thrown where
  "unavailable = Err GenericError ''Service unavailable''"

text \<open>A service that resolves every command; an invocation is answered with \<open>r\<close>.\<close>

definition serving :: "jsval \<Rightarrow> transport" where
  "serving r =
     \<lparr>sendStart = (\<lambda>h c. Inr (StartSessionOutput (Some ''session-1'') (Some 1))),
      sendStop = (\<lambda>h c. Inr ()),
      sendInvoke = (\<lambda>h c. Inr r),
      sendGet = (\<lambda>h c. Inl unavailable),
      sendUpdate = (\<lambda>h c. Inr None)\<rparr>"

text \<open>A service that rejects every command with the thrown value \<open>x\<close>.\<close>

definition rejecting :: "thrown \<Rightarrow> transport" where
  "rejecting x =
     \<lparr>sendStart = (\<lambda>h c. Inl x),
      sendStop = (\<lambda>h c. Inl x),
      sendInvoke = (\<lambda>h c. Inl x),
      sendGet = (\<lambda>h c. Inl x),
      sendUpdate = (\<lambda>h c. Inl x)\<rparr>"

definition refusing :: transport where
  "refusing = rejecting unavailable"

text \<open>A service that rejects the first command it receives and resolves the later ones.\<close>

definition recovering :: transport where
  "recovering =
     (serving (contentEnvelope (JStr ''ok'')))
       \<lparr>sendStart := (\<lambda>h c. if h = [] then Inl unavailable
                              else Inr (StartSessionOutput (Some ''session-1'') (Some 1)))\<rparr>"

definition idle_client :: client where
  "idle_client = \<lparr>region = ''us-west-2'', ident = ''aws.codeinterpreter.v1'', session = None, sent = []\<rparr>"

definition a_session :: sessionInfo where
  "a_session = \<lparr>sessionName = ''default'', sessionId = Some ''session-0'', createdAt = Some 0,
                 description = None\<rparr>"

definition active_client :: client where
  "active_client = idle_client\<lparr>session := Some a_session\<rparr>"

definition idle_browser :: pwClient where
  "idle_browser =
     \<lparr>region = ''us-west-2'', ident = ''aws.browser.v1'', session = None, sent = [],
      playwrightBrowser = None, playwrightPage = None, calls = []\<rparr>"

definition connected_browser :: pwClient where
  "connected_browser =
     idle_browser\<lparr>session := Some a_session,
                  playwrightBrowser := Some (PwBrowser [PwContext [0]]),
                  playwrightPage := Some 0\<rparr>"

text \<open>
  An automation library with one context holding page 0, whose element lookup answers \<open>q\<close>,
  whose visibility check answers \<open>v\<close> and whose history navigation answers \<open>g\<close> of the
  wait strategy.
\<close>

definition library ::
  "(thrown + element option) \<Rightarrow> (thrown + bool) \<Rightarrow> (string \<Rightarrow> thrown + unit) \<Rightarrow> automation" where
  "library q v g =
     \<lparr>importPlaywright = None,
      sign = (\<lambda>host path. Inr [(''host'', JStr host)]),
      connectOverCDP = (\<lambda>h c. Inr (PwBrowser [PwContext [0]])),
      newPage = (\<lambda>h c. Inr 0),
      closeBrowser = (\<lambda>h c. Inr ()),
      query = (\<lambda>h c. q),
      elementIsVisible = (\<lambda>h c. v),
      goBack = (\<lambda>h c. case c of GoBack p w n \<Rightarrow> g w | _ \<Rightarrow> Inr ()),
      goForward = (\<lambda>h c. case c of GoForward p w n \<Rightarrow> g w | _ \<Rightarrow> Inr ()),
      evaluate = (\<lambda>h c. Inr JUndefined),
      perform = (\<lambda>h c. Inr ()),
      cookies = (\<lambda>h c. Inr []),
      capture = (\<lambda>h c. Inr [137, 80, 78, 71]),
      textContent = (\<lambda>h c. Inr (Some ''Hello'')),
      markup = (\<lambda>h c. Inr ''<h1>Hello</h1>'')\<rparr>"

text \<open>
  Three libraries: one where nothing fails and no element is found, one whose wait for
  network idle times out, and one whose wait for network idle fails with a navigation error.
\<close>

definition steady :: automation where
  "steady = library (Inr None) (Inr True) (\<lambda>w. Inr ())"

definition never_idle :: automation where
  "never_idle =
     library (Inr None) (Inr True)
       (\<lambda>w. if w = ''networkidle'' then Inl (Err TimeoutError ''Timeout 30000ms exceeded.'')
            else Inr ())"

definition aborting :: automation where
  "aborting =
     library (Inr None) (Inr True)
       (\<lambda>w. if w = ''networkidle'' then Inl (Err GenericError ''net::ERR_ABORTED'') else Inr ())"

text \<open>Libraries whose element lookup throws, and whose visibility check throws.\<close>

definition lookup_fails :: automation where
  "lookup_fails = library (Inl (Err GenericError ''Execution context was destroyed'')) (Inr True) (\<lambda>w. Inr ())"

definition check_fails :: automation where
  "check_fails = library (Inr (Some 7)) (Inl (Err GenericError ''Element is not attached'')) (\<lambda>w. Inr ())"


definition close_fails :: automation where
  "close_fails = steady\<lparr>closeBrowser := (\<lambda>h c. Inl (Err GenericError ''Target closed''))\<rparr>"


definition stuck :: automation where
  "stuck = library (Inr None) (Inr True) (\<lambda>w. Inl (Err TimeoutError ''Timeout 30000ms exceeded.''))"

section \<open>Properties of the normalizer\<close>

lemma Rep_number:
  "- 9007199254740991 \<le> i \<Longrightarrow> i \<le> 9007199254740991 \<Longrightarrow> Rep_safe_integer (number i) = i"
  by (simp add: number_def Abs_safe_integer_inverse)

lemma optget_field: "optget v k = field v k"
  by (auto simp: optget_def nullish_def field_def)

lemma get_ok: "\<not> nullish v \<Longrightarrow> get v k = Inr (field v k)"
  by (simp add: get_def nullish_def)

lemma get_Inr: "get v k = Inr x \<Longrightarrow> \<not> nullish v \<and> x = field v k"
  by (auto simp: get_def nullish_def split: if_splits)

lemma truthy_not_nullish: "truthy v \<Longrightarrow> \<not> nullish v"
  by (cases v) (auto simp: nullish_def)

lemma sequence_total: "list_all (\<lambda>r. \<exists>x. r = Inr x) rs \<Longrightarrow> \<exists>xs. sequence rs = Inr xs"
  by (induction rs) (auto simp: then_do_def)

lemma printable_ToString: "printable v \<Longrightarrow> \<exists>s. ToString v = Inr s"
proof (induction v rule: ToString.induct)
  case (6 xs)
  have "list_all (\<lambda>r. \<exists>x. r = Inr x)
          (map (\<lambda>x. if x = JUndefined \<or> x = JNull then Inr [] else ToString x) xs)"
    using 6 by (auto simp: list_all_iff)
  from sequence_total [OF this] show ?case by (auto simp: then_do_def)
qed simp_all

lemma join_total: "list_all printable parts \<Longrightarrow> \<exists>s. join parts sep = Inr s"
proof -
  assume "list_all printable parts"
  then have "list_all (\<lambda>r. \<exists>x. r = Inr x)
               (map (\<lambda>x. if nullish x then Inr [] else ToString x) parts)"
    using printable_ToString by (auto simp: list_all_iff)
  from sequence_total [OF this] show ?thesis by (auto simp: join_def then_do_def)
qed

lemma stringify_printable: "v \<noteq> JUndefined \<Longrightarrow> printable (JSON_stringify v)"
  by (simp add: JSON_stringify_def)

lemma extractPart_total:
  assumes "item_ok item"
  shows "\<exists>part. extractPart item = Inr part \<and> printable part"
proof -
  from assms have nn: "\<not> nullish item" by (simp add: item_ok_def)
  then have ne: "item \<noteq> JUndefined" by (simp add: nullish_def)
  consider (plain) "field item ''type'' = JStr ''text''"
    | (resource) "field item ''type'' = JStr ''resource'' \<and> truthy (field item ''resource'')"
    | (link) "field item ''type'' = JStr ''resource_link''"
    | (other) "field item ''type'' \<noteq> JStr ''text''
        \<and> \<not> (field item ''type'' = JStr ''resource'' \<and> truthy (field item ''resource''))
        \<and> field item ''type'' \<noteq> JStr ''resource_link''"
    by auto
  then show ?thesis
  proof cases
    case plain
    with assms nn show ?thesis by (simp add: extractPart_def get_ok then_do_def item_ok_def)
  next
    case resource
    then have "field item ''resource'' \<noteq> JUndefined" by auto
    with assms nn resource show ?thesis
      by (simp add: extractPart_def get_ok then_do_def item_ok_def truthy_not_nullish
            stringify_printable)
  next
    case link
    with assms have pr: "list_all printable
        [field item ''name'', field item ''description'', field item ''mimeType'']"
      and uri: "printable (field item ''uri'')"
      by (simp_all add: item_ok_def)
    from pr have "list_all printable
        (filter truthy [field item ''name'', field item ''description'', field item ''mimeType''])"
      by (auto simp: list_all_iff)
    from join_total [OF this] obtain meta where
      "join (filter truthy [field item ''name'', field item ''description'', field item ''mimeType''])
         '' - '' = Inr meta" ..
    moreover from printable_ToString [OF uri] obtain u where "ToString (field item ''uri'') = Inr u" ..
    ultimately show ?thesis
      using link nn by (simp add: extractPart_def get_ok then_do_def)
  next
    case other
    with nn ne show ?thesis
      by (auto simp: extractPart_def get_ok then_do_def stringify_printable)
  qed
qed

lemma extractParts_total:
  "list_all item_ok items \<Longrightarrow> \<exists>parts. extractParts items = Inr parts \<and> list_all printable parts"
proof (induction items)
  case Nil
  then show ?case by simp
next
  case (Cons item items)
  then obtain part parts where "extractPart item = Inr part" "printable part"
    "extractParts items = Inr parts" "list_all printable parts"
    using extractPart_total by fastforce
  then show ?case by (simp add: then_do_def)
qed

lemma contentToString_string:
  assumes "truthy c" "items_ok c"
  shows "\<exists>s. contentToString c = Inr (JStr s)"
proof (cases c)
  case (JArr items)
  with assms obtain parts where "extractParts items = Inr parts" "list_all printable parts"
    using extractParts_total by (auto simp: items_ok_def)
  moreover from join_total [OF this(2)] obtain s where "join parts [CHR 0x0A] = Inr s" ..
  ultimately show ?thesis using JArr
    by (simp add: contentToString_def extractFromContentArray_def then_do_def)
qed (use assms in \<open>auto simp: contentToString_def JSON_stringify_def\<close>)

text \<open>Whatever a truthy content is, its conversion gives a string when it does not throw.\<close>

lemma contentToString_Inr:
  assumes "truthy c" "contentToString c = Inr v"
  shows "\<exists>s. v = JStr s"
  using assms
  by (cases c) (auto simp: contentToString_def JSON_stringify_def then_do_def split: sum.splits)

lemma message_string:
  assumes "message_ok event" "truthy (field event ''error'')"
  shows "\<exists>s. (if truthy (field (field event ''error'') ''message'')
              then field (field event ''error'') ''message'' else JStr ''Unknown error'') = JStr s"
  using assms by (cases "field (field event ''error'') ''message''") (auto simp: message_ok_def)

text \<open>What one streamed event does to the accumulated value.\<close>

lemma parseEvent_content:
  assumes "\<not> nullish event" and "truthy (field (field event ''result'') ''content'')"
    and "\<not> truthy (field event ''error'')"
  shows "parseEvent acc event = contentToString (field (field event ''result'') ''content'')"
  using assms
  by (cases "contentToString (field (field event ''result'') ''content'')")
     (simp_all add: parseEvent_def get_ok optget_field then_do_def)

lemma parseEvent_error:
  assumes "\<not> nullish event" and "truthy (field event ''error'')"
    and "content_converts event"
  shows "parseEvent acc event =
     Inr (if truthy (field (field event ''error'') ''message'')
          then field (field event ''error'') ''message'' else JStr ''Unknown error'')"
proof -
  let ?c = "field (field event ''result'') ''content''"
  have "\<exists>x. (if truthy ?c then contentToString ?c else Inr acc) = Inr x"
    using assms(3) by (auto simp: content_converts_def split: sum.splits)
  then obtain x where "(if truthy ?c then contentToString ?c else Inr acc) = Inr x" ..
  with assms(1,2) show ?thesis
    by (auto simp: parseEvent_def get_ok optget_field then_do_def truthy_not_nullish split: if_splits)
qed

lemma parseEvent_silent:
  assumes "\<not> nullish event" and "\<not> truthy (field (field event ''result'') ''content'')"
    and "\<not> truthy (field event ''error'')"
  shows "parseEvent acc event = Inr acc"
  using assms by (simp add: parseEvent_def get_ok optget_field then_do_def)

lemma items_ok_converts:
  "items_ok (field (field event ''result'') ''content'') \<Longrightarrow> content_converts event"
  using contentToString_string [of "field (field event ''result'') ''content''"]
  by (auto simp: content_converts_def)

lemma parseEvent_string:
  assumes "event_ok event"
  shows "\<exists>s. parseEvent (JStr acc) event = Inr (JStr s)"
proof -
  let ?c = "field (field event ''result'') ''content''"
  from assms have ev: "\<not> nullish event" and it: "items_ok ?c" and msg: "message_ok event"
    by (simp_all add: event_ok_def)
  show ?thesis
  proof (cases "truthy (field event ''error'')")
    case True
    with message_string [OF msg True] parseEvent_error [OF ev True items_ok_converts [OF it]]
    show ?thesis by auto
  next
    case False
    show ?thesis
    proof (cases "truthy ?c")
      case True
      with contentToString_string [OF True it] parseEvent_content [OF ev True False]
      show ?thesis by auto
    next
      case no_content: False
      with parseEvent_silent [OF ev no_content False] show ?thesis by simp
    qed
  qed
qed

lemma parseStream_string:
  "list_all event_ok events \<Longrightarrow> \<exists>s. parseStream (JStr acc) events = Inr (JStr s)"
proof (induction events arbitrary: acc)
  case Nil
  then show ?case by simp
next
  case (Cons event events)
  then obtain s where "parseEvent (JStr acc) event = Inr (JStr s)"
    using parseEvent_string by fastforce
  with Cons show ?case by (simp add: then_do_def)
qed

lemma parseStream_snoc:
  "parseStream acc (events @ [event]) =
     then_do (parseStream acc events) (\<lambda>acc'. parseEvent acc' event)"
proof (induction events arbitrary: acc)
  case Nil
  then show ?case by (cases "parseEvent acc event") (simp_all add: then_do_def)
next
  case (Cons e events)
  then show ?case by (cases "parseEvent acc e") (simp_all add: then_do_def)
qed

lemma parse_well_shaped:
  assumes "well_shaped response"
  shows "\<exists>s. parseInvokeResponse response = Inr (JStr s)"
proof (cases "truthy (field response ''stream'')")
  case True
  with assms obtain events where ev: "iterate (field response ''stream'') = Inr events"
    and ok: "list_all event_ok events"
    by (auto simp: well_shaped_def split: sum.splits)
  from parseStream_string [OF ok] obtain s where "parseStream (JStr []) events = Inr (JStr s)" ..
  with True ev assms show ?thesis
    by (simp add: parseInvokeResponse_def well_shaped_def get_ok then_do_def)
next
  case False
  let ?c = "field (field response ''result'') ''content''"
  from False assms have it: "items_ok ?c" and nn: "\<not> nullish response"
    by (simp_all add: well_shaped_def)
  have "\<exists>s. (if truthy ?c then contentToString ?c else Inr (JStr [])) = Inr (JStr s)"
    using contentToString_string [OF _ it] by auto
  with False nn show ?thesis
    by (auto simp: parseInvokeResponse_def get_ok optget_field then_do_def split: if_splits)
qed

text \<open>
  Whatever the shape of the response, what the normalizer returns is a string when the
  messages of the streamed errors are strings.
\<close>

lemma parseEvent_unfold:
  assumes "\<not> nullish event"
  shows "parseEvent acc event =
     then_do (if truthy (field (field event ''result'') ''content'')
              then contentToString (field (field event ''result'') ''content'')
              else Inr acc)
       (\<lambda>contentStr'.
          if truthy (field event ''error'')
          then Inr (if truthy (field (field event ''error'') ''message'')
                    then field (field event ''error'') ''message'' else JStr ''Unknown error'')
          else Inr contentStr')"
  using assms
  by (simp add: parseEvent_def get_ok optget_field then_do_def truthy_not_nullish
        split: sum.splits)

lemma parseEvent_Inr_string:
  assumes "parseEvent (JStr acc) event = Inr v" and "message_ok event"
  shows "\<exists>s. v = JStr s"
proof -
  let ?c = "field (field event ''result'') ''content''"
  from assms(1) have ev: "\<not> nullish event"
    by (auto simp: parseEvent_def then_do_def get_def nullish_def split: if_splits)
  note pe = assms(1) [unfolded parseEvent_unfold [OF ev]]
  then obtain x where x: "(if truthy ?c then contentToString ?c else Inr (JStr acc)) = Inr x"
    by (cases "if truthy ?c then contentToString ?c else Inr (JStr acc)")
       (simp_all add: then_do_def)
  then have xs: "\<exists>s. x = JStr s"
    using contentToString_Inr [of ?c x] by (auto split: if_splits)
  show ?thesis
  proof (cases "truthy (field event ''error'')")
    case True
    with pe x have "v = (if truthy (field (field event ''error'') ''message'')
        then field (field event ''error'') ''message'' else JStr ''Unknown error'')"
      by (simp add: then_do_def)
    with message_string [OF assms(2) True] show ?thesis by simp
  next
    case False
    with pe x have "v = x" by (simp add: then_do_def)
    with xs show ?thesis by simp
  qed
qed

lemma parseStream_Inr_string:
  "parseStream (JStr acc) events = Inr v \<Longrightarrow> list_all message_ok events \<Longrightarrow> \<exists>s. v = JStr s"
proof (induction events arbitrary: acc)
  case Nil
  then show ?case by auto
next
  case (Cons event events)
  from Cons.prems(1) obtain x where x: "parseEvent (JStr acc) event = Inr x"
    and rest: "parseStream x events = Inr v"
    by (cases "parseEvent (JStr acc) event") (auto simp: then_do_def)
  from parseEvent_Inr_string [OF x] Cons.prems(2) obtain s where "x = JStr s" by auto
  with rest Cons.IH Cons.prems(2) show ?case by auto
qed

lemma parse_Inr_string:
  assumes "parseInvokeResponse response = Inr v" and "messages_ok response"
  shows "\<exists>s. v = JStr s"
proof -
  from assms(1) have nn: "\<not> nullish response"
    by (auto simp: parseInvokeResponse_def then_do_def get_def nullish_def split: if_splits)
  show ?thesis
  proof (cases "truthy (field response ''stream'')")
    case True
    with assms(1) nn obtain events where ev: "iterate (field response ''stream'') = Inr events"
      and ps: "parseStream (JStr []) events = Inr v"
      by (cases "iterate (field response ''stream'')")
         (auto simp: parseInvokeResponse_def get_ok then_do_def)
    from assms(2) ev have "list_all message_ok events" by (simp add: messages_ok_def)
    with ps show ?thesis by (rule parseStream_Inr_string)
  next
    case False
    let ?c = "field (field response ''result'') ''content''"
    from False assms(1) nn have "(if truthy ?c then contentToString ?c else Inr (JStr [])) = Inr v"
      by (auto simp: parseInvokeResponse_def get_ok optget_field then_do_def split: if_splits)
    then show ?thesis using contentToString_Inr [of ?c v] by (auto split: if_splits)
  qed
qed

text \<open>Envelopes evaluated.\<close>

lemma contentToString_text: "contentToString (JArr [textItem a]) = Inr (JStr a)"
  by (simp add: contentToString_def extractFromContentArray_def extractPart_def textItem_def
        get_def field_def then_do_def join_def nullish_def)

lemma parseEvent_contentEnvelope:
  "truthy c \<Longrightarrow> parseEvent acc (contentEnvelope c) = contentToString c"
  by (cases "contentToString c")
     (simp_all add: parseEvent_def contentEnvelope_def get_def field_def optget_def nullish_def
        then_do_def)

lemma parseEvent_errorEnvelope:
  "parseEvent acc (errorEnvelope (JObj [(''message'', JStr m)])) =
     Inr (JStr (if m = [] then ''Unknown error'' else m))"
  by (simp add: parseEvent_def errorEnvelope_def get_def field_def optget_def nullish_def then_do_def)

section \<open>Properties of the session slot\<close>

lemma ci_start_active:
  "session st \<noteq> None \<Longrightarrow> CodeInterpreter_startSession t dt p st = (Inl already_active, st)"
  by (simp add: CodeInterpreter_startSession_def)

lemma browser_start_active:
  "session st \<noteq> None \<Longrightarrow> Browser_startSession t now bp st = (Inl already_active, st)"
  by (simp add: Browser_startSession_def)

lemma ci_start_success:
  "fst (CodeInterpreter_startSession t dt p st) = Inr info \<Longrightarrow>
     session (snd (CodeInterpreter_startSession t dt p st)) = Some info"
  by (auto simp: CodeInterpreter_startSession_def Let_def split: sum.splits if_splits)

lemma browser_start_success:
  "fst (Browser_startSession t now bp st) = Inr info \<Longrightarrow>
     session (snd (Browser_startSession t now bp st)) = Some info"
  by (auto simp: Browser_startSession_def Let_def split: sum.splits if_splits)







lemma ci_stop_idle: "session st = None \<Longrightarrow> CodeInterpreter_stopSession t st = (Inr (), st)"
  by (simp add: CodeInterpreter_stopSession_def)

lemma browser_stop_idle: "session st = None \<Longrightarrow> Browser_stopSession t st = (Inr (), st)"
  by (simp add: Browser_stopSession_def)

lemma pw_stop_idle:
  assumes "session b = None"
  shows "fst (PlaywrightBrowser_stopSession t a b) = Inr ()"
    and "sent (snd (PlaywrightBrowser_stopSession t a b)) = sent b"
    and "session (snd (PlaywrightBrowser_stopSession t a b)) = None"
  using assms
  by (auto simp: PlaywrightBrowser_stopSession_def Let_def browser_stop_idle
           split: option.splits sum.splits)

lemma pw_stop_idle_unconnected:
  "session b = None \<Longrightarrow> playwrightBrowser b = None \<Longrightarrow>
     PlaywrightBrowser_stopSession t a b = (Inr (), b)"
  by (simp add: PlaywrightBrowser_stopSession_def browser_stop_idle)

lemma pw_stop_idle_leftover:
  assumes "session b = None" and "playwrightBrowser b \<noteq> None"
  shows "calls (snd (PlaywrightBrowser_stopSession t a b)) = calls b @ [BrowserClose]"
  using assms
  by (auto simp: PlaywrightBrowser_stopSession_def browser_stop_idle split: sum.splits)

lemma ci_stop_idle_repeat:
  "session st = None \<Longrightarrow> ((\<lambda>s. snd (CodeInterpreter_stopSession t s)) ^^ n) st = st"
  by (induction n) (simp_all add: ci_stop_idle)

lemma browser_stop_idle_repeat:
  "session st = None \<Longrightarrow> ((\<lambda>s. snd (Browser_stopSession t s)) ^^ n) st = st"
  by (induction n) (simp_all add: browser_stop_idle)

lemma pw_stop_idle_repeat:
  "session b = None \<Longrightarrow>
     session (((\<lambda>s. snd (PlaywrightBrowser_stopSession t a s)) ^^ n) b) = None
   \<and> sent (((\<lambda>s. snd (PlaywrightBrowser_stopSession t a s)) ^^ n) b) = sent b"
  by (induction n) (simp_all add: pw_stop_idle)




section \<open>Properties of the operations\<close>

lemma call_active:
  assumes "session st = Some s"
  shows "call t dt op st =
     (Inr (case sendInvoke t (sent st) (invokeCommand op st (sessionId s)) of
             Inl e \<Rightarrow> caught (operationFallback op) e
           | Inr response \<Rightarrow>
               (case parseInvokeResponse response of
                  Inl e \<Rightarrow> caught (operationFallback op) e
                | Inr contentStr \<Rightarrow> contentStr)),
      st\<lparr>sent := sent st @ [invokeCommand op st (sessionId s)]\<rparr>)"
  using assms
  by (simp add: call_def invokeOperation_def invokeCommand_def Let_def split: sum.splits)

lemma call_idle_rejected:
  assumes "session st = None" and "sendStart t (sent st) (startDefault st dt) = Inl e"
  shows "call t dt op st = (Inl e, st\<lparr>sent := sent st @ [startDefault st dt]\<rparr>)"
  using assms
  by (simp add: call_def invokeOperation_def CodeInterpreter_startSession_def startDefault_def Let_def)

lemma call_idle_started:
  assumes "session st = None" and "sendStart t (sent st) (startDefault st dt) = Inr out"
  shows "call t dt op st = call t dt op (started st dt out)"
  using assms
  by (simp add: call_def invokeOperation_def CodeInterpreter_startSession_def startDefault_def
        started_def Let_def)

lemma started_fields:
  "session (started st dt out)
     = Some \<lparr>sessionName = DEFAULT_SESSION_NAME, sessionId = out_sessionId out,
              createdAt = out_createdAt out, description = None\<rparr>"
  "sent (started st dt out) = sent st @ [startDefault st dt]"
  "ident (started st dt out) = ident st"
  by (simp_all add: started_def)

lemma call_active_resolves:
  assumes "session st = Some s"
  shows "\<exists>v st'. call t dt op st = (Inr v, st')"
  by (simp add: call_active [OF assms])

lemma call_active_string:
  assumes "session st = Some s"
    and "outcome_ok (sendInvoke t (sent st) (invokeCommand op st (sessionId s)))"
  shows "\<exists>str. fst (call t dt op st) = Inr (JStr str)"
proof (cases "sendInvoke t (sent st) (invokeCommand op st (sessionId s))")
  case (Inl e)
  then show ?thesis by (simp add: call_active [OF assms(1)] caught_def)
next
  case (Inr response)
  show ?thesis
  proof (cases "parseInvokeResponse response")
    case (Inl e)
    with Inr show ?thesis by (simp add: call_active [OF assms(1)] caught_def)
  next
    case parsed: (Inr v)
    from assms(2) Inr have "messages_ok response" by (simp add: outcome_ok_def)
    from parse_Inr_string [OF parsed this] obtain str where "v = JStr str" ..
    with Inr parsed show ?thesis by (simp add: call_active [OF assms(1)])
  qed
qed




lemma isVisible_sent:
  "sent (snd (isVisible t a now sel b)) = sent (snd (ensureConnected t a now b))"
  by (auto simp: isVisible_def Let_def split: prod.splits sum.splits option.splits)

lemma historyNavigation_sent:
  "sent (snd (historyNavigation go mk script t a now b)) = sent (snd (ensureConnected t a now b))"
  by (auto simp: historyNavigation_def Let_def split: prod.splits sum.splits option.splits)

lemma isVisible_connected:
  assumes "ensureConnected t a now b = (Inr (), b1)" and "playwrightPage b1 = Some p"
  shows "isVisible t a now sel b =
     (case query a (calls b1) (Query p sel) of
        Inl e \<Rightarrow> (Inr False, b1\<lparr>calls := calls b1 @ [Query p sel]\<rparr>)
      | Inr None \<Rightarrow> (Inr False, b1\<lparr>calls := calls b1 @ [Query p sel]\<rparr>)
      | Inr (Some el) \<Rightarrow>
          (case elementIsVisible a (calls b1 @ [Query p sel]) (ElementIsVisible el) of
             Inl e \<Rightarrow> (Inr False, b1\<lparr>calls := calls b1 @ [Query p sel, ElementIsVisible el]\<rparr>)
           | Inr v \<Rightarrow> (Inr v, b1\<lparr>calls := calls b1 @ [Query p sel, ElementIsVisible el]\<rparr>)))"
  using assms by (simp add: isVisible_def Let_def split: sum.splits option.splits)

lemma isVisible_resolves:
  assumes "ensureConnected t a now b = (Inr (), b1)"
  shows "\<exists>v. fst (isVisible t a now sel b) = Inr v"
  using assms by (auto simp: isVisible_def Let_def split: sum.splits option.splits)

lemma isVisible_unconnected:
  assumes "ensureConnected t a now b = (Inl e, b1)"
  shows "isVisible t a now sel b = (Inl e, b1)"
  using assms by (simp add: isVisible_def)

lemma historyNavigation_connected:
  assumes "ensureConnected t a now b = (Inr (), b1)" and "playwrightPage b1 = Some p"
  shows "historyNavigation go mk script t a now b =
     (case go a (calls b1) (mk p ''networkidle'' 30000) of
        Inr _ \<Rightarrow> (Inr (), b1\<lparr>calls := calls b1 @ [mk p ''networkidle'' 30000]\<rparr>)
      | Inl _ \<Rightarrow>
          (case go a (calls b1 @ [mk p ''networkidle'' 30000]) (mk p ''load'' 30000) of
             Inr _ \<Rightarrow> (Inr (), b1\<lparr>calls := calls b1 @ [mk p ''networkidle'' 30000, mk p ''load'' 30000]\<rparr>)
           | Inl _ \<Rightarrow>
               (case evaluate a (calls b1 @ [mk p ''networkidle'' 30000, mk p ''load'' 30000])
                       (Evaluate p script) of
                  Inl e \<Rightarrow> (Inl e, b1\<lparr>calls := calls b1 @ [mk p ''networkidle'' 30000, mk p ''load'' 30000,
                                                             Evaluate p script]\<rparr>)
                | Inr _ \<Rightarrow> (Inr (), b1\<lparr>calls := calls b1 @ [mk p ''networkidle'' 30000, mk p ''load'' 30000,
                                                              Evaluate p script]\<rparr>))))"
  using assms by (simp add: historyNavigation_def Let_def split: sum.splits)

















section \<open>C1: the six operations resolve to a string\<close>

text \<open>
  As stated, C1 fails. The session is ensured before the \<^verbatim>\<open>try\<close> block, so when no session
  is active and the service rejects the creation of one, \<^verbatim>\<open>executeCode\<close> rejects. And when a
  streamed error carries a number as its message, \<^verbatim>\<open>executeCommand\<close> resolves to that number,
  which is not a string.
\<close>

theorem operation_rejects_when_creation_fails:
  "fst (executeCode refusing 3600 \<lparr>e_code = ''print(1)'', e_language = None, e_clearContext = None\<rparr>
          idle_client)
     = Inl unavailable
   \<and> fst (executeCommand (serving numeric_failure) 3600 ''ls'' active_client)
     = Inr (JNum (number 42))"
  by (simp add: executeCode_def executeCommand_def call_def invokeOperation_def
        CodeInterpreter_startSession_def refusing_def rejecting_def serving_def idle_client_def
        active_client_def numeric_failure_def streamed_def errorEnvelope_def
        parseInvokeResponse_def parseEvent_def iterate_def get_def field_def optget_def
        nullish_def then_do_def Rep_number Let_def)

text \<open>
  C1, amended. For each of the six operations: once a session is active, or when none is
  active and the implicit creation resolves, the call resolves and never rejects, whatever
  the outcome of the invocation; and it resolves to a string for every outcome (a response
  of any shape, a business error, a thrown value) in which the message of each streamed
  error is a string when it is truthy. When the invocation throws an \<^verbatim>\<open>Error\<close>, the result
  is the string \<^verbatim>\<open>"Error: "\<close> followed by the error's message; when it throws another value,
  the result is \<^verbatim>\<open>"Error: "\<close> followed by the operation's fixed message. When the invocation
  resolves, the result is what the normalizer returns for the response, or
  \<^verbatim>\<open>"Error: "\<close> followed by the message of the error that the normalizer throws. When no
  session is active and the implicit creation rejects, the call rejects with the thrown
  value.
\<close>

theorem operation_resolves:
  "(session st = Some s \<longrightarrow> (\<exists>v st'. call t dt op st = (Inr v, st')))
 \<and> (session st = Some s
      \<and> outcome_ok (sendInvoke t (sent st) (invokeCommand op st (sessionId s))) \<longrightarrow>
      (\<exists>str. fst (call t dt op st) = Inr (JStr str)))
 \<and> (session st = None \<and> sendStart t (sent st) (startDefault st dt) = Inr out \<longrightarrow>
      call t dt op st = call t dt op (started st dt out)
      \<and> (\<exists>v st'. call t dt op st = (Inr v, st')))
 \<and> (session st = None \<and> sendStart t (sent st) (startDefault st dt) = Inr out
      \<and> outcome_ok (sendInvoke t (sent st @ [startDefault st dt])
                      (invokeCommand op st (out_sessionId out))) \<longrightarrow>
      (\<exists>str. fst (call t dt op st) = Inr (JStr str)))
 \<and> (session st = None \<and> sendStart t (sent st) (startDefault st dt) = Inl e \<longrightarrow>
      fst (call t dt op st) = Inl e)
 \<and> (session st = Some s
      \<and> sendInvoke t (sent st) (invokeCommand op st (sessionId s)) = Inl (Err c m) \<longrightarrow>
      fst (call t dt op st) = Inr (JStr (''Error: '' @ m)))
 \<and> (session st = Some s
      \<and> sendInvoke t (sent st) (invokeCommand op st (sessionId s)) = Inl (NonError x) \<longrightarrow>
      fst (call t dt op st) = Inr (JStr (''Error: '' @ operationFallback op)))
 \<and> (session st = Some s
      \<and> sendInvoke t (sent st) (invokeCommand op st (sessionId s)) = Inr response
      \<and> parseInvokeResponse response = Inr v \<longrightarrow>
      fst (call t dt op st) = Inr v)
 \<and> (session st = Some s
      \<and> sendInvoke t (sent st) (invokeCommand op st (sessionId s)) = Inr response
      \<and> parseInvokeResponse response = Inl (Err c' m') \<longrightarrow>
      fst (call t dt op st) = Inr (JStr (''Error: '' @ m')))"
proof (intro conjI impI)
  assume "session st = Some s"
  then show "\<exists>v st'. call t dt op st = (Inr v, st')" by (rule call_active_resolves)
next
  assume "session st = Some s
    \<and> outcome_ok (sendInvoke t (sent st) (invokeCommand op st (sessionId s)))"
  then show "\<exists>str. fst (call t dt op st) = Inr (JStr str)"
    using call_active_string by blast
next
  assume "session st = None \<and> sendStart t (sent st) (startDefault st dt) = Inr out"
  then show "call t dt op st = call t dt op (started st dt out)"
    by (simp add: call_idle_started)
next
  assume a: "session st = None \<and> sendStart t (sent st) (startDefault st dt) = Inr out"
  then have "call t dt op st = call t dt op (started st dt out)" by (simp add: call_idle_started)
  moreover have "\<exists>v st'. call t dt op (started st dt out) = (Inr v, st')"
    by (rule call_active_resolves) (rule started_fields)
  ultimately show "\<exists>v st'. call t dt op st = (Inr v, st')" by simp
next
  assume a: "session st = None \<and> sendStart t (sent st) (startDefault st dt) = Inr out
    \<and> outcome_ok (sendInvoke t (sent st @ [startDefault st dt])
                    (invokeCommand op st (out_sessionId out)))"
  then have "call t dt op st = call t dt op (started st dt out)" by (simp add: call_idle_started)
  moreover have "\<exists>str. fst (call t dt op (started st dt out)) = Inr (JStr str)"
    by (rule call_active_string [OF started_fields(1)])
       (use a in \<open>simp add: started_fields invokeCommand_def\<close>)
  ultimately show "\<exists>str. fst (call t dt op st) = Inr (JStr str)" by simp
next
  assume "session st = None \<and> sendStart t (sent st) (startDefault st dt) = Inl e"
  then show "fst (call t dt op st) = Inl e" by (simp add: call_idle_rejected)
next
  assume "session st = Some s
    \<and> sendInvoke t (sent st) (invokeCommand op st (sessionId s)) = Inl (Err c m)"
  then show "fst (call t dt op st) = Inr (JStr (''Error: '' @ m))"
    by (simp add: call_active caught_def)
next
  assume "session st = Some s
    \<and> sendInvoke t (sent st) (invokeCommand op st (sessionId s)) = Inl (NonError x)"
  then show "fst (call t dt op st) = Inr (JStr (''Error: '' @ operationFallback op))"
    by (simp add: call_active caught_def)
next
  assume "session st = Some s
    \<and> sendInvoke t (sent st) (invokeCommand op st (sessionId s)) = Inr response
    \<and> parseInvokeResponse response = Inr v"
  then show "fst (call t dt op st) = Inr v" by (simp add: call_active)
next
  assume "session st = Some s
    \<and> sendInvoke t (sent st) (invokeCommand op st (sessionId s)) = Inr response
    \<and> parseInvokeResponse response = Inl (Err c' m')"
  then show "fst (call t dt op st) = Inr (JStr (''Error: '' @ m'))"
    by (simp add: call_active caught_def)
qed

theorem operation_resolves_witness:
  "fst (call refusing 3600 (ExecuteCommand ''ls'') active_client)
     = Inr (JStr ''Error: Service unavailable'')
   \<and> fst (call (rejecting (NonError (JStr ''oops''))) 3600 (ExecuteCommand ''ls'') active_client)
     = Inr (JStr ''Error: Command execution failed'')
   \<and> fst (call (serving (contentEnvelope (JStr ''ok''))) 3600 (ExecuteCommand ''ls'') active_client)
     = Inr (JStr ''ok'')
   \<and> fst (call (serving (contentEnvelope (JArr [JNull]))) 3600 (ExecuteCommand ''ls'') active_client)
     = Inr (JStr ''Error: Cannot read properties of null (reading 'type')'')
   \<and> fst (call (serving (contentEnvelope (JStr ''ok''))) 3600 (ExecuteCommand ''ls'') idle_client)
     = Inr (JStr ''ok'')
   \<and> fst (call refusing 3600 (ExecuteCommand ''ls'') idle_client) = Inl unavailable"
  using
    operation_resolves [where st = active_client and s = a_session and t = refusing and dt = 3600
      and op = "ExecuteCommand ''ls''" and c = GenericError and m = "''Service unavailable''"]
    operation_resolves [where st = active_client and s = a_session
      and t = "rejecting (NonError (JStr ''oops''))" and dt = 3600
      and op = "ExecuteCommand ''ls''" and x = "JStr ''oops''"]
    operation_resolves [where st = active_client and s = a_session
      and t = "serving (contentEnvelope (JStr ''ok''))" and dt = 3600
      and op = "ExecuteCommand ''ls''" and response = "contentEnvelope (JStr ''ok'')"
      and v = "JStr ''ok''"]
    operation_resolves [where st = active_client and s = a_session
      and t = "serving (contentEnvelope (JArr [JNull]))" and dt = 3600
      and op = "ExecuteCommand ''ls''" and response = "contentEnvelope (JArr [JNull])"
      and c' = TypeError and m' = "''Cannot read properties of null (reading 'type')''"]
    operation_resolves [where st = idle_client
      and t = "serving (contentEnvelope (JStr ''ok''))" and dt = 3600
      and op = "ExecuteCommand ''ls''" and out = "StartSessionOutput (Some ''session-1'') (Some 1)"]
    operation_resolves [where st = idle_client and t = refusing and dt = 3600
      and op = "ExecuteCommand ''ls''" and e = unavailable]
  by (simp add: call_def invokeOperation_def CodeInterpreter_startSession_def caught_def
        refusing_def rejecting_def serving_def unavailable_def active_client_def idle_client_def
        a_session_def contentEnvelope_def parseInvokeResponse_def contentToString_def
        extractFromContentArray_def extractPart_def started_def startDefault_def
        get_def field_def optget_def nullish_def then_do_def Let_def)

section \<open>C2: the normalizer on every shape\<close>

text \<open>
  As stated, C2 fails. The normalizer throws a TypeError on a content array holding a null
  item, on a text item whose text is an object with an own \<^verbatim>\<open>toString\<close> property, on a
  response that is null, on a streamed event that is null, and on a stream that cannot be
  iterated; and for an error object whose message is a number it returns that number.
\<close>

theorem normalizer_throws_on_null_item:
  "parseInvokeResponse (contentEnvelope (JArr [JNull]))
     = Inl (Err TypeError ''Cannot read properties of null (reading 'type')'')
   \<and> parseInvokeResponse
       (contentEnvelope (JArr [JObj [(''type'', JStr ''text''), (''text'', shadowed)]]))
     = Inl cannot_convert
   \<and> parseInvokeResponse JNull
     = Inl (Err TypeError ''Cannot read properties of null (reading 'stream')'')
   \<and> parseInvokeResponse (streamed [JNull])
     = Inl (Err TypeError ''Cannot read properties of null (reading 'result')'')
   \<and> parseInvokeResponse (JObj [(''stream'', JBool True)])
     = Inl (Err TypeError ''response.stream is not async iterable'')
   \<and> parseInvokeResponse numeric_failure = Inr (JNum (number 42))"
  by (simp add: parseInvokeResponse_def contentEnvelope_def streamed_def errorEnvelope_def
        numeric_failure_def shadowed_def cannot_convert_def
        contentToString_def extractFromContentArray_def extractPart_def parseEvent_def iterate_def
        join_def get_def field_def optget_def nullish_def then_do_def Rep_number)

text \<open>
  C2, amended. For every well-shaped response the normalizer returns a string and does not
  throw: the response and the streamed events are neither null nor undefined, a truthy
  stream can be iterated, a content array has no null or undefined item, the parts of an
  item that are converted to a string can be converted, and the message of an error is a
  string when it is truthy. This covers plain string content, arrays of items of the known
  kinds (text, resource, resource_link) and of unknown kinds, explicit error objects,
  nested unknown objects, and content of no recognized shape.
\<close>

theorem normalizer_total:
  assumes "well_shaped response"
  shows "\<exists>s. parseInvokeResponse response = Inr (JStr s)"
  using assms by (rule parse_well_shaped)

theorem normalizer_total_witness:
  "well_shaped (contentEnvelope mixed_content)
   \<and> parseInvokeResponse (contentEnvelope mixed_content)
       = Inr (JStr (''42'' @ [CHR 0x0A] @ ''file body'' @ [CHR 0x0A]
               @ [CHR ''{'', CHR 0x22] @ ''uri'' @ [CHR 0x22] @ '':'' @ [CHR 0x22] @ ''file:///a'' @ [CHR 0x22, CHR ''}'']
               @ [CHR 0x0A] @ ''a.txt - text/plain (file:///a.txt)'' @ [CHR 0x0A]
               @ [CHR ''{'', CHR 0x22] @ ''type'' @ [CHR 0x22] @ '':'' @ [CHR 0x22] @ ''image'' @ [CHR 0x22]
               @ '','' @ [CHR 0x22] @ ''size'' @ [CHR 0x22] @ '':3}'' @ [CHR 0x0A] @ ''7''))"
  using normalizer_total [of "contentEnvelope mixed_content"]
  by (simp add: well_shaped_def items_ok_def item_ok_def mixed_content_def contentEnvelope_def
        textItem_def parseInvokeResponse_def contentToString_def extractFromContentArray_def
        extractPart_def JSON_stringify_def quote_def escape_char_def show_int_def digit_char_def
        get_def field_def optget_def nullish_def then_do_def join_def Rep_number Let_def)

section \<open>C3: the last write of a stream wins\<close>

text \<open>
  As stated, C3 fails. An event whose content is the empty string does not overwrite the
  value accumulated so far; an error whose message is the empty string yields the fallback
  string, not its message; an event carrying both an error and a content array with a null
  item makes the normalizer throw before the error is read; and an error is not reached
  when an earlier event has made the normalizer throw.
\<close>

theorem empty_increment_does_not_overwrite:
  "parseInvokeResponse (streamed [contentEnvelope (JStr ''abc''), contentEnvelope (JStr [])])
     = Inr (JStr ''abc'')
   \<and> parseInvokeResponse
       (streamed [contentEnvelope (JStr ''abc''), errorEnvelope (JObj [(''message'', JStr [])])])
     = Inr (JStr ''Unknown error'')
   \<and> parseInvokeResponse (streamed [contentEnvelope (JStr ''abc''), broken_failure])
     = Inl (Err TypeError ''Cannot read properties of null (reading 'type')'')
   \<and> parseInvokeResponse
       (streamed [contentEnvelope (JArr [JNull]), errorEnvelope (JObj [(''message'', JStr ''boom'')])])
     = Inl (Err TypeError ''Cannot read properties of null (reading 'type')'')"
  by (simp add: parseInvokeResponse_def contentEnvelope_def streamed_def errorEnvelope_def
        broken_failure_def
        contentToString_def extractFromContentArray_def extractPart_def parseEvent_def iterate_def
        join_def get_def field_def optget_def nullish_def then_do_def)

text \<open>
  C3, amended. In a stream whose earlier events have been processed without a throw, an
  event carrying content that is truthy (not empty) and no error replaces the value
  accumulated so far by the string of its own content, and an event carrying an error
  replaces it by the error's message, or by \<^verbatim>\<open>"Unknown error"\<close> when the message is absent or
  empty, provided the event's own content, if there is any, is converted without a throw;
  nothing of the earlier events remains in either case, and an event carrying neither
  leaves the value as it is. In particular, for two events carrying the texts \<open>a\<close> and \<open>b\<close>
  followed by an event carrying an error with message \<open>m\<close>, the result is \<open>m\<close> (the fallback
  string when \<open>m\<close> is empty or absent); without the third event it is \<open>b\<close>.
\<close>

theorem last_write_wins:
  "(parseStream acc events = Inr acc' \<and> \<not> nullish event
      \<and> truthy (field (field event ''result'') ''content'') \<and> \<not> truthy (field event ''error'') \<longrightarrow>
      parseStream acc (events @ [event]) = contentToString (field (field event ''result'') ''content''))
 \<and> (parseStream acc events = Inr acc' \<and> \<not> nullish failure
      \<and> truthy (field failure ''error'') \<and> content_converts failure \<longrightarrow>
      parseStream acc (events @ [failure])
        = Inr (if truthy (field (field failure ''error'') ''message'')
               then field (field failure ''error'') ''message'' else JStr ''Unknown error''))
 \<and> (parseStream acc events = Inr acc' \<and> \<not> nullish quiet
      \<and> \<not> truthy (field (field quiet ''result'') ''content'') \<and> \<not> truthy (field quiet ''error'') \<longrightarrow>
      parseStream acc (events @ [quiet]) = Inr acc')
 \<and> parseInvokeResponse
      (streamed [contentEnvelope (JArr [textItem a]), contentEnvelope (JArr [textItem b]),
                 errorEnvelope (JObj [(''message'', JStr m)])])
      = Inr (JStr (if m = [] then ''Unknown error'' else m))
 \<and> parseInvokeResponse
      (streamed [contentEnvelope (JArr [textItem a]), contentEnvelope (JArr [textItem b]),
                 errorEnvelope (JObj [])])
      = Inr (JStr ''Unknown error'')
 \<and> parseInvokeResponse
      (streamed [contentEnvelope (JArr [textItem a]), contentEnvelope (JArr [textItem b])])
      = Inr (JStr b)"
proof (intro conjI impI)
  assume "parseStream acc events = Inr acc' \<and> \<not> nullish event
      \<and> truthy (field (field event ''result'') ''content'') \<and> \<not> truthy (field event ''error'')"
  then show "parseStream acc (events @ [event]) = contentToString (field (field event ''result'') ''content'')"
    by (simp add: parseStream_snoc then_do_def parseEvent_content)
next
  assume "parseStream acc events = Inr acc' \<and> \<not> nullish failure
      \<and> truthy (field failure ''error'') \<and> content_converts failure"
  then show "parseStream acc (events @ [failure])
        = Inr (if truthy (field (field failure ''error'') ''message'')
               then field (field failure ''error'') ''message'' else JStr ''Unknown error'')"
    by (simp add: parseStream_snoc then_do_def parseEvent_error)
next
  assume "parseStream acc events = Inr acc' \<and> \<not> nullish quiet
      \<and> \<not> truthy (field (field quiet ''result'') ''content'') \<and> \<not> truthy (field quiet ''error'')"
  then show "parseStream acc (events @ [quiet]) = Inr acc'"
    by (simp add: parseStream_snoc then_do_def parseEvent_silent)
next
  show "parseInvokeResponse
      (streamed [contentEnvelope (JArr [textItem a]), contentEnvelope (JArr [textItem b]),
                 errorEnvelope (JObj [(''message'', JStr m)])])
      = Inr (JStr (if m = [] then ''Unknown error'' else m))"
    by (simp add: parseInvokeResponse_def streamed_def get_def field_def iterate_def then_do_def
          parseEvent_contentEnvelope contentToString_text parseEvent_errorEnvelope)
next
  show "parseInvokeResponse
      (streamed [contentEnvelope (JArr [textItem a]), contentEnvelope (JArr [textItem b]),
                 errorEnvelope (JObj [])])
      = Inr (JStr ''Unknown error'')"
    by (simp add: parseInvokeResponse_def streamed_def get_def field_def iterate_def then_do_def
          parseEvent_contentEnvelope contentToString_text)
       (simp add: parseEvent_def errorEnvelope_def get_def field_def optget_def nullish_def then_do_def)
next
  show "parseInvokeResponse
      (streamed [contentEnvelope (JArr [textItem a]), contentEnvelope (JArr [textItem b])])
      = Inr (JStr b)"
    by (simp add: parseInvokeResponse_def streamed_def get_def field_def iterate_def then_do_def
          parseEvent_contentEnvelope contentToString_text)
qed

theorem last_write_wins_witness:
  "parseStream (JStr []) [contentEnvelope (JStr ''first'')] = Inr (JStr ''first'')
   \<and> parseStream (JStr []) ([contentEnvelope (JStr ''first'')] @ [contentEnvelope (JArr [textItem ''second''])])
       = Inr (JStr ''second'')
   \<and> parseStream (JStr []) ([contentEnvelope (JStr ''first'')] @ [errorEnvelope (JObj [(''message'', JStr ''boom'')])])
       = Inr (JStr ''boom'')
   \<and> parseStream (JStr []) ([contentEnvelope (JStr ''first'')] @ [JObj []]) = Inr (JStr ''first'')"
  using last_write_wins [where acc = "JStr []" and events = "[contentEnvelope (JStr ''first'')]"
      and acc' = "JStr ''first''" and event = "contentEnvelope (JArr [textItem ''second''])"
      and failure = "errorEnvelope (JObj [(''message'', JStr ''boom'')])" and quiet = "JObj []"]
  by (simp add: contentEnvelope_def errorEnvelope_def textItem_def parseEvent_def
        contentToString_def extractFromContentArray_def extractPart_def content_converts_def
        get_def field_def optget_def nullish_def then_do_def join_def)

section \<open>C4: starting while a session is active\<close>

text \<open>
  As stated, C4 fails in its second half: when the remote call of the first
  \<^verbatim>\<open>startSession\<close> rejects, no session is recorded, and a second \<^verbatim>\<open>startSession\<close> without a
  stop in between is not refused.
\<close>

theorem second_start_after_failed_start:
  "fst (CodeInterpreter_startSession recovering 3600 None idle_client) = Inl unavailable
   \<and> fst (CodeInterpreter_startSession recovering 3600 None
            (snd (CodeInterpreter_startSession recovering 3600 None idle_client)))
       = Inr \<lparr>sessionName = ''default'', sessionId = Some ''session-1'', createdAt = Some 1,
              description = None\<rparr>"
  by (simp add: CodeInterpreter_startSession_def recovering_def serving_def idle_client_def
        DEFAULT_SESSION_NAME_def Let_def)

text \<open>
  C4, amended. For a client of either family, \<^verbatim>\<open>startSession\<close> called while a session is
  active fails with the "already active" error and leaves the client as it was: no command
  is sent. Hence, of two \<^verbatim>\<open>startSession\<close> calls without a stop in between, the second fails
  with that error whenever the first one resolved.
\<close>

theorem start_while_active:
  "(session st \<noteq> None \<longrightarrow>
      CodeInterpreter_startSession t dt p st = (Inl already_active, st)
    \<and> Browser_startSession t now bp st = (Inl already_active, st))
 \<and> (fst (CodeInterpreter_startSession t dt p st) = Inr info \<longrightarrow>
      CodeInterpreter_startSession t' dt' p' (snd (CodeInterpreter_startSession t dt p st))
        = (Inl already_active, snd (CodeInterpreter_startSession t dt p st)))
 \<and> (fst (Browser_startSession t now bp st) = Inr info' \<longrightarrow>
      Browser_startSession t' now' bp' (snd (Browser_startSession t now bp st))
        = (Inl already_active, snd (Browser_startSession t now bp st)))"
  using ci_start_success [of t dt p st info] browser_start_success [of t now bp st info']
  by (simp add: ci_start_active browser_start_active)

theorem start_while_active_witness:
  "CodeInterpreter_startSession refusing 3600 None active_client = (Inl already_active, active_client)
   \<and> Browser_startSession refusing 0 None active_client = (Inl already_active, active_client)
   \<and> fst (CodeInterpreter_startSession (serving JNull) 3600 None
        (snd (CodeInterpreter_startSession (serving JNull) 3600 None idle_client)))
       = Inl already_active
   \<and> fst (Browser_startSession (serving JNull) 0 None
        (snd (Browser_startSession (serving JNull) 0 None idle_client)))
       = Inl already_active"
  using
    start_while_active [where st = active_client and t = refusing and dt = 3600 and p = None
      and now = 0 and bp = None]
    start_while_active [where st = idle_client and t = "serving JNull" and dt = 3600 and p = None
      and now = 0 and bp = None and t' = "serving JNull" and dt' = 3600 and p' = None
      and now' = 0 and bp' = None
      and info = "\<lparr>sessionName = ''default'', sessionId = Some ''session-1'',
                   createdAt = Some 1, description = None\<rparr>"
      and info' = "\<lparr>sessionName = ''default'', sessionId = Some ''session-1'',
                    createdAt = Some 1, description = None\<rparr>"]
  by (simp add: CodeInterpreter_startSession_def Browser_startSession_def serving_def
        active_client_def idle_client_def DEFAULT_SESSION_NAME_def Let_def)

section \<open>C5: stopping without a session\<close>

text \<open>
  As stated, C5 fails for a Playwright client. When \<^verbatim>\<open>close()\<close> throws during a
  \<^verbatim>\<open>stopSession\<close> that stops the session, the automation connection stays in the client;
  the next \<^verbatim>\<open>stopSession\<close>, called with no session active, calls \<^verbatim>\<open>close()\<close> on the remote
  browser again.
\<close>

theorem stop_closes_leftover_connection:
  "session (snd (PlaywrightBrowser_stopSession (serving JNull) close_fails connected_browser)) = None
   \<and> calls (snd (PlaywrightBrowser_stopSession (serving JNull) close_fails connected_browser))
     = [BrowserClose]
   \<and> calls (snd (PlaywrightBrowser_stopSession (serving JNull) close_fails
        (snd (PlaywrightBrowser_stopSession (serving JNull) close_fails connected_browser))))
     = [BrowserClose, BrowserClose]"
  by (simp add: PlaywrightBrowser_stopSession_def Browser_stopSession_def serving_def
        close_fails_def steady_def library_def connected_browser_def idle_browser_def Let_def)

text \<open>
  C5, amended. For a client of either family with no active session, \<^verbatim>\<open>stopSession\<close> resolves
  without sending a command to the remote service, and does so again however many times it
  is called. The code-interpreter client, the base browser client and a Playwright client
  that holds no automation connection are left unchanged: no remote call is issued. A
  Playwright client that still holds an automation connection makes one call, \<^verbatim>\<open>close()\<close>,
  to the remote browser, and a failure of that call is caught.
\<close>

theorem stop_without_session:
  assumes "session st = None" and "session b = None"
  shows "CodeInterpreter_stopSession t (((\<lambda>s. snd (CodeInterpreter_stopSession t s)) ^^ n) st)
           = (Inr (), st)
       \<and> Browser_stopSession t (((\<lambda>s. snd (Browser_stopSession t s)) ^^ n) st) = (Inr (), st)
       \<and> fst (PlaywrightBrowser_stopSession t a
                (((\<lambda>s. snd (PlaywrightBrowser_stopSession t a s)) ^^ n) b)) = Inr ()
       \<and> sent (snd (PlaywrightBrowser_stopSession t a
                (((\<lambda>s. snd (PlaywrightBrowser_stopSession t a s)) ^^ n) b))) = sent b
       \<and> (playwrightBrowser b = None \<longrightarrow> PlaywrightBrowser_stopSession t a b = (Inr (), b))
       \<and> (playwrightBrowser b \<noteq> None \<longrightarrow>
            fst (PlaywrightBrowser_stopSession t a b) = Inr ()
          \<and> calls (snd (PlaywrightBrowser_stopSession t a b)) = calls b @ [BrowserClose])"
  using assms
  by (simp add: ci_stop_idle_repeat browser_stop_idle_repeat ci_stop_idle browser_stop_idle
        pw_stop_idle pw_stop_idle_repeat pw_stop_idle_unconnected pw_stop_idle_leftover)

theorem stop_without_session_witness:
  "session idle_client = None \<and> session idle_browser = None
   \<and> CodeInterpreter_stopSession refusing (snd (CodeInterpreter_stopSession refusing idle_client))
       = (Inr (), idle_client)
   \<and> Browser_stopSession refusing (snd (Browser_stopSession refusing idle_client))
       = (Inr (), idle_client)
   \<and> fst (PlaywrightBrowser_stopSession refusing steady
            (snd (PlaywrightBrowser_stopSession refusing steady idle_browser))) = Inr ()
   \<and> sent (snd (PlaywrightBrowser_stopSession refusing steady
            (snd (PlaywrightBrowser_stopSession refusing steady idle_browser)))) = []
   \<and> PlaywrightBrowser_stopSession refusing steady idle_browser = (Inr (), idle_browser)
   \<and> PlaywrightBrowser_stopSession refusing close_fails (connected_browser\<lparr>session := None\<rparr>)
       = (Inr (), connected_browser\<lparr>session := None, calls := [BrowserClose]\<rparr>)"
  using stop_without_session [of idle_client idle_browser refusing "Suc 0" steady]
    stop_without_session [of idle_client "connected_browser\<lparr>session := None\<rparr>" refusing 0
      close_fails]
  by (simp add: idle_client_def idle_browser_def connected_browser_def
        PlaywrightBrowser_stopSession_def Browser_stopSession_def close_fails_def steady_def
        library_def)

section \<open>C6: implicit creation of the session\<close>




section \<open>C7: visibility checks\<close>

text \<open>
  As stated, C7 fails: \<^verbatim>\<open>_ensureConnected\<close> is awaited before the \<^verbatim>\<open>try\<close> block, so an error
  in creating the session propagates out of \<^verbatim>\<open>isVisible\<close>.
\<close>

theorem isVisible_rejects_when_creation_fails:
  "fst (isVisible refusing steady 0 ''#nope'' idle_browser) = Inl unavailable"
  by (simp add: isVisible_def ensureConnected_def Browser_startSession_def refusing_def
        rejecting_def idle_browser_def Let_def)

text \<open>
  C7, amended. Once the session and the connection are established, \<^verbatim>\<open>isVisible\<close> resolves
  to a boolean and never rejects: for every selector whose lookup finds no element, or whose
  lookup raises, or whose visibility check raises, it resolves to false. An error raised
  while the session or the connection is being established propagates to the caller.
\<close>

theorem isVisible_downgrades:
  "(ensureConnected t a now b = (Inr (), b1) \<longrightarrow> (\<exists>v. fst (isVisible t a now sel b) = Inr v))
 \<and> (ensureConnected t a now b = (Inr (), b1) \<and> playwrightPage b1 = Some p
      \<and> query a (calls b1) (Query p sel) = Inr None \<longrightarrow>
      fst (isVisible t a now sel b) = Inr False)
 \<and> (ensureConnected t a now b = (Inr (), b1) \<and> playwrightPage b1 = Some p
      \<and> query a (calls b1) (Query p sel) = Inl e \<longrightarrow>
      fst (isVisible t a now sel b) = Inr False)
 \<and> (ensureConnected t a now b = (Inr (), b1) \<and> playwrightPage b1 = Some p
      \<and> query a (calls b1) (Query p sel) = Inr (Some el)
      \<and> elementIsVisible a (calls b1 @ [Query p sel]) (ElementIsVisible el) = Inl e \<longrightarrow>
      fst (isVisible t a now sel b) = Inr False)
 \<and> (ensureConnected t a now b = (Inl e, b1) \<longrightarrow> isVisible t a now sel b = (Inl e, b1))"
  using isVisible_resolves [of t a now b b1 sel]
  by (auto simp: isVisible_connected isVisible_unconnected)

theorem isVisible_downgrades_witness:
  "isVisible refusing steady 0 ''#nope'' connected_browser
     = (Inr False, connected_browser\<lparr>calls := [Query 0 ''#nope'']\<rparr>)
   \<and> isVisible refusing lookup_fails 0 ''#nope'' connected_browser
     = (Inr False, connected_browser\<lparr>calls := [Query 0 ''#nope'']\<rparr>)
   \<and> isVisible refusing check_fails 0 ''#nope'' connected_browser
     = (Inr False, connected_browser\<lparr>calls := [Query 0 ''#nope'', ElementIsVisible 7]\<rparr>)
   \<and> fst (isVisible refusing steady 0 ''#nope'' idle_browser) = Inl unavailable"
  using
    isVisible_downgrades [where t = refusing and a = steady and now = 0 and b = connected_browser
      and ?b1.0 = connected_browser and p = 0 and sel = "''#nope''"]
    isVisible_downgrades [where t = refusing and a = lookup_fails and now = 0
      and b = connected_browser and ?b1.0 = connected_browser and p = 0 and sel = "''#nope''"
      and e = "Err GenericError ''Execution context was destroyed''"]
    isVisible_downgrades [where t = refusing and a = check_fails and now = 0
      and b = connected_browser and ?b1.0 = connected_browser and p = 0 and sel = "''#nope''"
      and el = 7 and e = "Err GenericError ''Element is not attached''"]
    isVisible_downgrades [where t = refusing and a = steady and now = 0 and b = idle_browser
      and ?b1.0 = "idle_browser\<lparr>sent := [browserStartDefault idle_browser]\<rparr>"
      and sel = "''#nope''" and e = unavailable]
  by (simp add: isVisible_def ensureConnected_def Browser_startSession_def
        steady_def lookup_fails_def check_fails_def library_def refusing_def rejecting_def
        connected_browser_def idle_browser_def Let_def)

section \<open>C8: fallback order of back and forward\<close>

text \<open>
  As stated, C8 fails: the \<^verbatim>\<open>catch\<close> clauses are bare, so \<^verbatim>\<open>back\<close> also advances to the second
  strategy when the first one fails with an error that is not a timeout.
\<close>

theorem advances_on_other_errors:
  "PlaywrightBrowser_back refusing aborting 0 connected_browser
     = (Inr (), connected_browser\<lparr>calls := [GoBack 0 ''networkidle'' 30000, GoBack 0 ''load'' 30000]\<rparr>)"
  by (simp add: PlaywrightBrowser_back_def historyNavigation_def ensureConnected_def
        connected_browser_def idle_browser_def aborting_def library_def Let_def)

text \<open>
  C8, amended. Once connected, \<^verbatim>\<open>back\<close> and \<^verbatim>\<open>forward\<close> try three strategies in order: the
  history navigation waiting for network idle, then the same waiting for the load event,
  then the history manipulation evaluated as a script. A strategy is tried only if the one
  before it raised, and it is tried whatever was raised (a timeout or any other error); the
  outcome of the third strategy is the outcome of the call.
\<close>

theorem history_fallback_order:
  assumes "ensureConnected t a now b = (Inr (), b1)" and "playwrightPage b1 = Some p"
  shows
  "(goBack a (calls b1) (GoBack p ''networkidle'' 30000) = Inr () \<longrightarrow>
      PlaywrightBrowser_back t a now b
        = (Inr (), b1\<lparr>calls := calls b1 @ [GoBack p ''networkidle'' 30000]\<rparr>))
 \<and> (goBack a (calls b1) (GoBack p ''networkidle'' 30000) = Inl e1
      \<and> goBack a (calls b1 @ [GoBack p ''networkidle'' 30000]) (GoBack p ''load'' 30000) = Inr () \<longrightarrow>
      PlaywrightBrowser_back t a now b
        = (Inr (), b1\<lparr>calls := calls b1 @ [GoBack p ''networkidle'' 30000, GoBack p ''load'' 30000]\<rparr>))
 \<and> (goBack a (calls b1) (GoBack p ''networkidle'' 30000) = Inl e1
      \<and> goBack a (calls b1 @ [GoBack p ''networkidle'' 30000]) (GoBack p ''load'' 30000) = Inl e2 \<longrightarrow>
      PlaywrightBrowser_back t a now b
        = (map_sum id (\<lambda>_. ())
             (evaluate a (calls b1 @ [GoBack p ''networkidle'' 30000, GoBack p ''load'' 30000])
                (Evaluate p ''window.history.back()'')),
           b1\<lparr>calls := calls b1 @ [GoBack p ''networkidle'' 30000, GoBack p ''load'' 30000,
                                    Evaluate p ''window.history.back()'']\<rparr>))
 \<and> (goForward a (calls b1) (GoForward p ''networkidle'' 30000) = Inr () \<longrightarrow>
      PlaywrightBrowser_forward t a now b
        = (Inr (), b1\<lparr>calls := calls b1 @ [GoForward p ''networkidle'' 30000]\<rparr>))
 \<and> (goForward a (calls b1) (GoForward p ''networkidle'' 30000) = Inl e1
      \<and> goForward a (calls b1 @ [GoForward p ''networkidle'' 30000]) (GoForward p ''load'' 30000)
          = Inr () \<longrightarrow>
      PlaywrightBrowser_forward t a now b
        = (Inr (), b1\<lparr>calls := calls b1 @ [GoForward p ''networkidle'' 30000,
                                             GoForward p ''load'' 30000]\<rparr>))
 \<and> (goForward a (calls b1) (GoForward p ''networkidle'' 30000) = Inl e1
      \<and> goForward a (calls b1 @ [GoForward p ''networkidle'' 30000]) (GoForward p ''load'' 30000)
          = Inl e2 \<longrightarrow>
      PlaywrightBrowser_forward t a now b
        = (map_sum id (\<lambda>_. ())
             (evaluate a (calls b1 @ [GoForward p ''networkidle'' 30000, GoForward p ''load'' 30000])
                (Evaluate p ''window.history.forward()'')),
           b1\<lparr>calls := calls b1 @ [GoForward p ''networkidle'' 30000, GoForward p ''load'' 30000,
                                    Evaluate p ''window.history.forward()'']\<rparr>))"
  by (auto simp: PlaywrightBrowser_back_def PlaywrightBrowser_forward_def
        historyNavigation_connected [OF assms] split: sum.splits)

theorem history_fallback_order_witness:
  "PlaywrightBrowser_back refusing steady 0 connected_browser
     = (Inr (), connected_browser\<lparr>calls := [GoBack 0 ''networkidle'' 30000]\<rparr>)
   \<and> PlaywrightBrowser_forward refusing never_idle 0 connected_browser
     = (Inr (), connected_browser\<lparr>calls := [GoForward 0 ''networkidle'' 30000,
                                              GoForward 0 ''load'' 30000]\<rparr>)
   \<and> PlaywrightBrowser_back refusing stuck 0 connected_browser
     = (Inr (), connected_browser\<lparr>calls := [GoBack 0 ''networkidle'' 30000, GoBack 0 ''load'' 30000,
                                              Evaluate 0 ''window.history.back()'']\<rparr>)"
  using
    history_fallback_order [where t = refusing and a = steady and now = 0
      and b = connected_browser and ?b1.0 = connected_browser and p = 0]
    history_fallback_order [where t = refusing and a = never_idle and now = 0
      and b = connected_browser and ?b1.0 = connected_browser and p = 0
      and ?e1.0 = "Err TimeoutError ''Timeout 30000ms exceeded.''"]
    history_fallback_order [where t = refusing and a = stuck and now = 0
      and b = connected_browser and ?b1.0 = connected_browser and p = 0
      and ?e1.0 = "Err TimeoutError ''Timeout 30000ms exceeded.''"
      and ?e2.0 = "Err TimeoutError ''Timeout 30000ms exceeded.''"]
  by (simp add: PlaywrightBrowser_back_def PlaywrightBrowser_forward_def historyNavigation_def
        ensureConnected_def connected_browser_def idle_browser_def steady_def never_idle_def
        stuck_def library_def Let_def)

section \<open>C9: session metadata without a session id\<close>

text \<open>
  C9. When no session is active and the parameters carry no session id, \<^verbatim>\<open>getSession\<close> and
  \<^verbatim>\<open>updateBrowserStream\<close> reject with the error saying that the ids must be provided or a
  session started, and the client is unchanged: no command has been sent.
\<close>

theorem metadata_needs_session_id:
  assumes "session st = None" and "Option.bind params t_sessionId = None"
    and "t_sessionId target = None"
  shows "getSession t params st = (Inl ids_required, st)
       \<and> updateBrowserStream t target status st = (Inl ids_required, st)"
  using assms
  by (simp add: getSession_def updateBrowserStream_def targetSessionId_def present_def Let_def)

theorem metadata_needs_session_id_witness:
  "session idle_client = None
   \<and> getSession (serving JNull) None idle_client = (Inl ids_required, idle_client)
   \<and> updateBrowserStream (serving JNull) \<lparr>t_browserId = None, t_sessionId = None\<rparr> ''ENABLED''
        idle_client
       = (Inl ids_required, idle_client)"
  using metadata_needs_session_id [of idle_client None "\<lparr>t_browserId = None, t_sessionId = None\<rparr>"
      "serving JNull" "''ENABLED''"]
  by (simp add: idle_client_def)

section \<open>C10: the session slot when the remote call fails\<close>



end
